theory Spec2Isabelle
  imports Complex_Main "HOL-Library.AList"
begin

section \<open>Core types (src/types.ts)\<close>

text \<open>
  Conventions of the embedding.
  \<^item> A JavaScript \<open>number\<close> is a \<open>real\<close>: arithmetic is exact, and the non-finite
    values (NaN, the infinities) are outside the model except where the code itself
    produces one by reading past the end of an array (see \<open>jsnum\<close> below). Counters
    that the code only ever increments from zero are \<open>nat\<close>.
  \<^item> A JavaScript string is a \<open>string\<close>, one \<open>char\<close> per code unit (code units
    0 to 255); \<open>length\<close> is the \<open>.length\<close> of the source.
  \<^item> An optional field (\<open>x?: T\<close>) is an \<open>option\<close>, \<open>None\<close> for \<open>undefined\<close>.
  \<^item> Wall-clock readings (\<open>Date.now()\<close>: the \<open>timestamp\<close> of an event and of an
    intent, the \<open>duration\<close> metric) are left out: no stage reads them.
  \<^item> \<open>console.log\<close> and \<open>console.error\<close> produce output only and are left out; an
    error they report is part of the returned value.
  \<^item> Calls are sequential: one \<open>process\<close> or \<open>submitFeedback\<close> call is awaited
    before the next starts.
\<close>

datatype IntentType = VIBE_CHECK | MOVE_MAKE | CLARITY_CALL | RAPPORT_BUILD

fun IntentType_str :: "IntentType \<Rightarrow> string" where
  "IntentType_str VIBE_CHECK = ''vibe_check''"
| "IntentType_str MOVE_MAKE = ''move_make''"
| "IntentType_str CLARITY_CALL = ''clarity_call''"
| "IntentType_str RAPPORT_BUILD = ''rapport_build''"

record ConfidenceScore =
  patternMatch :: real
  clarity :: real
  templateCoverage :: real
  historicalSuccess :: real
  overall :: real

record ClassifiedIntent =
  intent_type :: IntentType
  confidence :: ConfidenceScore
  rawInput :: string
  extractedEntities :: "(string \<times> string) list"

datatype PipelineStage =
    INTENT_CLASSIFICATION
  | CONFIDENCE_GATING
  | STRATEGY_SELECTION
  | EXECUTION
  | ANTI_PATTERN_DETECTION
  | FEEDBACK_COLLECTION

datatype StrategyType = AUTONOMOUS | CONFIRMATION | GUIDED | DELEGATED | LEARNING

fun StrategyType_str :: "StrategyType \<Rightarrow> string" where
  "StrategyType_str AUTONOMOUS = ''autonomous''"
| "StrategyType_str CONFIRMATION = ''confirmation''"
| "StrategyType_str GUIDED = ''guided''"
| "StrategyType_str DELEGATED = ''delegated''"
| "StrategyType_str LEARNING = ''learning''"

record ExecutionStrategy =
  strategy_type :: StrategyType
  strategy_confidence :: real
  reasoning :: string
  parameters :: "(string \<times> string) list"

record ExecutionMetrics =
  tokensUsed :: "nat option"
  retriesAttempted :: nat

record ExecutionResult =
  success :: bool
  result_output :: "string option"
  error_message :: "string option"
  metrics :: ExecutionMetrics

datatype AntiPatternType =
    INFINITE_CLARIFICATION
  | STUCK_LOOP
  | CONTEXT_DRIFT
  | SCOPE_CREEP
  | HALLUCINATION_SPIRAL

record AntiPattern =
  pattern_type :: AntiPatternType
  severity :: real
  evidence :: "string list"
  recommendedPivot :: string

record ExplicitFeedback =
  liked :: "string list"
  disliked :: "string list"

record ImplicitFeedback =
  taskCompleted :: bool
  timeToCompletion :: real
  editsMade :: real

text \<open>\<open>rating\<close> is declared \<open>number\<close>, but \<open>feedbackToReward\<close> tests it against
  \<open>undefined\<close>, so the model lets it be absent.\<close>

record UserFeedback =
  rating :: "real option"
  explicit :: "ExplicitFeedback option"
  implicit :: "ImplicitFeedback option"

record ContextFeatures =
  intentType :: IntentType
  taskComplexity :: real
  userExperience :: real
  timeOfDay :: real
  sessionLength :: real
  previousSuccessRate :: real

record PipelineConfig =
  confidenceThreshold :: real
  maxClarificationAttempts :: real
  enableAntiPatternDetection :: bool
  enablePreferenceLearning :: bool
  llmProvider :: string
  debug :: bool

definition DEFAULT_CONFIG :: PipelineConfig where
  "DEFAULT_CONFIG =
     \<lparr> confidenceThreshold = 7 / 10,
       maxClarificationAttempts = 3,
       enableAntiPatternDetection = True,
       enablePreferenceLearning = True,
       llmProvider = ''gpt-4'',
       debug = False \<rparr>"

text \<open>\<open>Partial<PipelineConfig>\<close>: a field is \<open>None\<close> when the key is absent.\<close>

record PartialConfig =
  p_confidenceThreshold :: "real option"
  p_maxClarificationAttempts :: "real option"
  p_enableAntiPatternDetection :: "bool option"
  p_enablePreferenceLearning :: "bool option"
  p_llmProvider :: "string option"
  p_debug :: "bool option"

definition no_overrides :: PartialConfig where
  "no_overrides =
     \<lparr> p_confidenceThreshold = None, p_maxClarificationAttempts = None,
       p_enableAntiPatternDetection = None, p_enablePreferenceLearning = None,
       p_llmProvider = None, p_debug = None \<rparr>"

text \<open>The object spread \<open>{ ...DEFAULT_CONFIG, ...config }\<close>.\<close>

definition merge_config :: "PipelineConfig \<Rightarrow> PartialConfig \<Rightarrow> PipelineConfig" where
  "merge_config d c =
     \<lparr> confidenceThreshold =
         (case p_confidenceThreshold c of None \<Rightarrow> confidenceThreshold d | Some v \<Rightarrow> v),
       maxClarificationAttempts =
         (case p_maxClarificationAttempts c of None \<Rightarrow> maxClarificationAttempts d | Some v \<Rightarrow> v),
       enableAntiPatternDetection =
         (case p_enableAntiPatternDetection c of None \<Rightarrow> enableAntiPatternDetection d | Some v \<Rightarrow> v),
       enablePreferenceLearning =
         (case p_enablePreferenceLearning c of None \<Rightarrow> enablePreferenceLearning d | Some v \<Rightarrow> v),
       llmProvider = (case p_llmProvider c of None \<Rightarrow> llmProvider d | Some v \<Rightarrow> v),
       debug = (case p_debug c of None \<Rightarrow> debug d | Some v \<Rightarrow> v) \<rparr>"

subsection \<open>Events and the session context\<close>

text \<open>
  The pipeline shares one intent object between \<open>context.currentIntent\<close> and the
  \<open>data.intent\<close> of the events it emits, and the gating handler writes to that object.
  Intent objects therefore live in a store (a list, the address is the index) and both the
  context and the events hold the address. \<open>HistoryData\<close> stands for
  \<open>{ history: context.history }\<close>, where the payload is the context's own history
  array. The strategy and feedback objects are never written after they are created and
  are held by value.
\<close>

type_synonym IntentRef = nat

datatype EventData =
    InputData string
  | IntentData "IntentRef option"
  | HistoryData
  | ExecutionData "IntentRef option" "ExecutionStrategy option"
  | FeedbackData UserFeedback

record EventMetadata =
  meta_sessionId :: string
  meta_userId :: "string option"

record PipelineEvent =
  stage :: PipelineStage
  data :: EventData
  metadata :: EventMetadata

record PipelineContext =
  sessionId :: string
  userId :: "string option"
  history :: "PipelineEvent list"
  currentIntent :: "IntentRef option"
  selectedStrategy :: "ExecutionStrategy option"
  executionResult :: "ExecutionResult option"
  antiPatternDetected :: "AntiPattern option"

datatype error = Error string | TypeError string | SyntaxError string


section \<open>The pipeline (src/pipeline/Pipeline.ts)\<close>

subsection \<open>String operations of the runtime\<close>

text \<open>\<open>String.prototype.toLowerCase\<close> on code units 0 to 255: the upper-case letters
  A to Z and the accented capitals 192 to 222 (without the multiplication sign 215) move
  up by 32, every other code unit stays.\<close>

definition lower_char :: "char \<Rightarrow> char" where
  "lower_char c =
     (let n = (of_char c :: nat)
      in if (65 \<le> n \<and> n \<le> 90) \<or> (192 \<le> n \<and> n \<le> 222 \<and> n \<noteq> 215)
         then char_of (n + 32) else c)"

definition toLowerCase :: "string \<Rightarrow> string" where
  "toLowerCase s = map lower_char s"

text \<open>\<open>s.includes(pat)\<close>: \<open>pat\<close> occurs in \<open>s\<close> as a contiguous run (the name
  \<open>includes\<close> is reserved, hence \<open>str_includes\<close>).\<close>

fun startsWith :: "string \<Rightarrow> string \<Rightarrow> bool" where
  "startsWith s [] = True"
| "startsWith [] (p # ps) = False"
| "startsWith (c # cs) (p # ps) = (c = p \<and> startsWith cs ps)"

fun str_includes :: "string \<Rightarrow> string \<Rightarrow> bool" where
  "str_includes [] pat = (pat = [])"
| "str_includes (c # cs) pat = (startsWith (c # cs) pat \<or> str_includes cs pat)"

text \<open>The decimal text of a counter, as a template literal prints it.\<close>

definition digit_char :: "nat \<Rightarrow> char" where
  "digit_char d = char_of (48 + d)"

fun show_nat :: "nat \<Rightarrow> string" where
  "show_nat n = (if n < 10 then [digit_char n] else show_nat (n div 10) @ [digit_char (n mod 10)])"

declare show_nat.simps [simp del]

subsection \<open>Classification, strategy selection, execution\<close>

definition classifyIntent :: "string \<Rightarrow> ClassifiedIntent" where
  "classifyIntent input =
     (let lowerInput = toLowerCase input;
          (ty, pm, cl) =
            (if str_includes lowerInput ''how'' \<or> str_includes lowerInput ''what'' \<or> str_includes lowerInput ''why''
             then (VIBE_CHECK, 8 / 10, 85 / 100)
             else if str_includes lowerInput ''create'' \<or> str_includes lowerInput ''build''
                     \<or> str_includes lowerInput ''make''
             then (MOVE_MAKE, 85 / 100, 9 / 10)
             else if str_includes lowerInput ''?'' \<or> length lowerInput < 10
             then (CLARITY_CALL, 6 / 10, 5 / 10)
             else (RAPPORT_BUILD, 7 / 10, 7 / 10))
      in \<lparr> intent_type = ty,
           confidence =
             \<lparr> patternMatch = pm, clarity = cl, templateCoverage = 75 / 100,
               historicalSuccess = 8 / 10,
               overall = (pm + cl + 75 / 100 + 8 / 10) / 4 \<rparr>,
           rawInput = input,
           extractedEntities = [] \<rparr>)"

text \<open>\<open>selectStrategy\<close> takes the context and never reads it.\<close>

definition selectStrategy :: "ClassifiedIntent \<Rightarrow> PipelineContext \<Rightarrow> ExecutionStrategy" where
  "selectStrategy intent ctx =
     (let ty = (case intent_type intent of
                  VIBE_CHECK \<Rightarrow> AUTONOMOUS
                | MOVE_MAKE \<Rightarrow>
                    (if overall (confidence intent) > 9 / 10 then AUTONOMOUS else CONFIRMATION)
                | CLARITY_CALL \<Rightarrow> GUIDED
                | RAPPORT_BUILD \<Rightarrow> AUTONOMOUS)
      in \<lparr> strategy_type = ty,
           strategy_confidence = 85 / 100,
           reasoning = ''Selected '' @ StrategyType_str ty @ '' based on intent ''
                        @ IntentType_str (intent_type intent),
           parameters = [] \<rparr>)"

text \<open>\<open>execute\<close> waits on a timer and returns the success record; nothing in its
  \<open>try\<close> block can throw, so the \<open>catch\<close> branch has no input that reaches it.\<close>

definition execute :: "ClassifiedIntent \<Rightarrow> ExecutionStrategy \<Rightarrow> ExecutionResult" where
  "execute intent strategy =
     \<lparr> success = True,
       result_output = Some (''Executed '' @ IntentType_str (intent_type intent) @ '' with ''
                              @ StrategyType_str (strategy_type strategy) @ '' strategy''),
       error_message = None,
       metrics = \<lparr> tokensUsed = Some 150, retriesAttempted = 0 \<rparr> \<rparr>"

subsection \<open>Anti-pattern detection\<close>

text \<open>\<open>intentData?.input\<close>: the \<open>input\<close> property of an event payload, \<open>None\<close> when
  the payload has none.\<close>

fun data_input :: "EventData \<Rightarrow> string option" where
  "data_input (InputData s) = Some s"
| "data_input _ = None"

text \<open>The test \<open>intentData?.input && intentData.input.length < 10\<close>. The first operand
  is a truthiness test: \<open>undefined\<close> and the empty string are both falsy.\<close>

definition short_input :: "PipelineEvent \<Rightarrow> bool" where
  "short_input e =
     (case data_input (data e) of
        None \<Rightarrow> False
      | Some s \<Rightarrow> s \<noteq> [] \<and> length s < 10)"

text \<open>The counting loop over \<open>context.history\<close>.\<close>

definition clarificationCount :: "PipelineEvent list \<Rightarrow> nat" where
  "clarificationCount h =
     fold (\<lambda>e n. if stage e = INTENT_CLASSIFICATION \<and> short_input e then n + 1 else n) h 0"

text \<open>\<open>history.slice(-5)\<close>: the last five events, or all of them when there are fewer.\<close>

definition recentEvents :: "PipelineEvent list \<Rightarrow> PipelineEvent list" where
  "recentEvents h = drop (length h - 5) h"

text \<open>\<open>new Set(recentEvents.map(e => e.stage)).size\<close>.\<close>

definition uniqueStages :: "PipelineEvent list \<Rightarrow> nat" where
  "uniqueStages es = length (remdups (map stage es))"

text \<open>\<open>detectAntiPatterns\<close> reads \<open>context.history\<close> and \<open>this.config\<close> and nothing
  else; \<open>detect_in\<close> is its body on that history.\<close>

definition detect_in :: "PipelineConfig \<Rightarrow> PipelineEvent list \<Rightarrow> AntiPattern option" where
  "detect_in cfg h =
     (let n = clarificationCount h in
      if real n > maxClarificationAttempts cfg then
        Some \<lparr> pattern_type = INFINITE_CLARIFICATION,
               severity = 9 / 10,
               evidence = [show_nat n @ '' clarification attempts detected''],
               recommendedPivot = ''Switch to guided mode with examples'' \<rparr>
      else if uniqueStages (recentEvents h) < 2 \<and> length (recentEvents h) \<ge> 5 then
        Some \<lparr> pattern_type = STUCK_LOOP,
               severity = 85 / 100,
               evidence = [''Repetitive pattern detected in recent events''],
               recommendedPivot = ''Reset context and try alternative approach'' \<rparr>
      else None)"

definition detectAntiPatterns :: "PipelineConfig \<Rightarrow> PipelineContext \<Rightarrow> AntiPattern option" where
  "detectAntiPatterns cfg ctx = detect_in cfg (history ctx)"

subsection \<open>Handlers and the event bus\<close>

text \<open>
  A handler receives the event and the live context. What it can reach and change is
  the context and the intent objects, so it is a function on that pair (a \<open>World\<close>).
  A handler that throws keeps what it wrote before the throw: the result is the error,
  if any, together with the world it left.
\<close>

record World =
  wctx :: PipelineContext
  wheap :: "ClassifiedIntent list"

type_synonym EventHandler = "PipelineEvent \<Rightarrow> World \<Rightarrow> error option \<times> World"

text \<open>Reading an intent object through its address. An address always comes from an
  allocation, so the \<open>None\<close> branch is there for totality only.\<close>

definition deref :: "ClassifiedIntent list \<Rightarrow> IntentRef \<Rightarrow> ClassifiedIntent option" where
  "deref h r = (if r < length h then Some (h ! r) else None)"

text \<open>The \<open>intent\<close> and \<open>strategy\<close> properties of an event payload.\<close>

fun data_intent :: "EventData \<Rightarrow> IntentRef option" where
  "data_intent (IntentData r) = r"
| "data_intent (ExecutionData r s) = r"
| "data_intent _ = None"

fun data_strategy :: "EventData \<Rightarrow> ExecutionStrategy option" where
  "data_strategy (ExecutionData r s) = s"
| "data_strategy _ = None"

definition classificationHandler :: EventHandler where
  "classificationHandler ev w =
     (case data_input (data ev) of
        None \<Rightarrow> (Some (TypeError ''input is undefined''), w)
      | Some input \<Rightarrow>
          (None, w\<lparr> wheap := wheap w @ [classifyIntent input],
                    wctx := (wctx w)\<lparr> currentIntent := Some (length (wheap w)) \<rparr> \<rparr>))"

text \<open>The write of the gating handler to the intent object.\<close>

definition gate :: "PipelineConfig \<Rightarrow> ClassifiedIntent \<Rightarrow> ClassifiedIntent" where
  "gate cfg intent =
     (if overall (confidence intent) < confidenceThreshold cfg
      then intent\<lparr> intent_type := CLARITY_CALL \<rparr> else intent)"

definition gatingHandler :: "PipelineConfig \<Rightarrow> EventHandler" where
  "gatingHandler cfg ev w =
     (case data_intent (data ev) of
        None \<Rightarrow> (Some (Error ''No intent to gate''), w)
      | Some r \<Rightarrow>
          (case deref (wheap w) r of
             None \<Rightarrow> (Some (Error ''No intent to gate''), w)
           | Some intent \<Rightarrow> (None, w\<lparr> wheap := (wheap w)[r := gate cfg intent] \<rparr>)))"

definition strategyHandler :: EventHandler where
  "strategyHandler ev w =
     (case data_intent (data ev) of
        None \<Rightarrow> (Some (Error ''No intent for strategy selection''), w)
      | Some r \<Rightarrow>
          (case deref (wheap w) r of
             None \<Rightarrow> (Some (Error ''No intent for strategy selection''), w)
           | Some intent \<Rightarrow>
               (None, w\<lparr> wctx := (wctx w)\<lparr> selectedStrategy :=
                                               Some (selectStrategy intent (wctx w)) \<rparr> \<rparr>)))"

definition executionHandler :: EventHandler where
  "executionHandler ev w =
     (case (data_intent (data ev), data_strategy (data ev)) of
        (Some r, Some strategy) \<Rightarrow>
          (case deref (wheap w) r of
             None \<Rightarrow> (Some (Error ''Missing intent or strategy for execution''), w)
           | Some intent \<Rightarrow>
               (None, w\<lparr> wctx := (wctx w)\<lparr> executionResult :=
                                               Some (execute intent strategy) \<rparr> \<rparr>))
      | _ \<Rightarrow> (Some (Error ''Missing intent or strategy for execution''), w))"

definition antiPatternHandler :: "PipelineConfig \<Rightarrow> EventHandler" where
  "antiPatternHandler cfg ev w =
     (case detectAntiPatterns cfg (wctx w) of
        None \<Rightarrow> (None, w)
      | Some antiPattern \<Rightarrow>
          (None, w\<lparr> wctx := (wctx w)\<lparr> antiPatternDetected := Some antiPattern \<rparr> \<rparr>))"

definition feedbackHandler :: EventHandler where
  "feedbackHandler ev w = (None, w)"

text \<open>\<open>registerDefaultHandlers\<close>: one handler for each stage.\<close>

fun defaultHandlers :: "PipelineConfig \<Rightarrow> PipelineStage \<Rightarrow> EventHandler list" where
  "defaultHandlers cfg INTENT_CLASSIFICATION = [classificationHandler]"
| "defaultHandlers cfg CONFIDENCE_GATING = [gatingHandler cfg]"
| "defaultHandlers cfg STRATEGY_SELECTION = [strategyHandler]"
| "defaultHandlers cfg EXECUTION = [executionHandler]"
| "defaultHandlers cfg ANTI_PATTERN_DETECTION = [antiPatternHandler cfg]"
| "defaultHandlers cfg FEEDBACK_COLLECTION = [feedbackHandler]"

record Pipeline =
  config :: PipelineConfig
  eventBus :: "PipelineStage \<Rightarrow> EventHandler list"
  contexts :: "string \<rightharpoonup> PipelineContext"
  heap :: "ClassifiedIntent list"

definition new_Pipeline :: "PartialConfig \<Rightarrow> Pipeline" where
  "new_Pipeline c =
     \<lparr> config = merge_config DEFAULT_CONFIG c,
       eventBus = defaultHandlers (merge_config DEFAULT_CONFIG c),
       contexts = Map.empty,
       heap = [] \<rparr>"

definition on :: "PipelineStage \<Rightarrow> EventHandler \<Rightarrow> Pipeline \<Rightarrow> Pipeline" where
  "on st handler p = p\<lparr> eventBus := (eventBus p)(st := eventBus p st @ [handler]) \<rparr>"

text \<open>The loop of \<open>emit\<close> over the handlers: each is awaited before the next starts, and
  the first that throws ends the loop.\<close>

fun run_handlers :: "EventHandler list \<Rightarrow> PipelineEvent \<Rightarrow> World \<Rightarrow> error option \<times> World" where
  "run_handlers [] ev w = (None, w)"
| "run_handlers (h # hs) ev w =
     (case h ev w of
        (Some e, w') \<Rightarrow> (Some e, w')
      | (None, w') \<Rightarrow> run_handlers hs ev w')"

definition push_event :: "PipelineEvent \<Rightarrow> World \<Rightarrow> World" where
  "push_event ev w = w\<lparr> wctx := (wctx w)\<lparr> history := history (wctx w) @ [ev] \<rparr> \<rparr>"

definition emit :: "Pipeline \<Rightarrow> PipelineEvent \<Rightarrow> World \<Rightarrow> error option \<times> World" where
  "emit p ev w = run_handlers (eventBus p (stage ev)) ev (push_event ev w)"

subsection \<open>process, submitFeedback, getContext, clearContext\<close>

definition new_context :: "string \<Rightarrow> string option \<Rightarrow> PipelineContext" where
  "new_context sid uid =
     \<lparr> sessionId = sid, userId = uid, history = [], currentIntent = None,
       selectedStrategy = None, executionResult = None, antiPatternDetected = None \<rparr>"

definition mk_event :: "PipelineStage \<Rightarrow> EventData \<Rightarrow> string \<Rightarrow> string option \<Rightarrow> PipelineEvent" where
  "mk_event st d sid uid =
     \<lparr> stage = st, data = d, metadata = \<lparr> meta_sessionId = sid, meta_userId = uid \<rparr> \<rparr>"

text \<open>The body of the \<open>try\<close> block of \<open>process\<close>, on the world of the session.\<close>

definition run_stages ::
  "Pipeline \<Rightarrow> string \<Rightarrow> string \<Rightarrow> string option \<Rightarrow> World \<Rightarrow> error option \<times> World" where
  "run_stages p input sid uid w0 =
     (case emit p (mk_event INTENT_CLASSIFICATION (InputData input) sid uid) w0 of
        (Some e, w1) \<Rightarrow> (Some e, w1)
      | (None, w1) \<Rightarrow>
     (case emit p (mk_event CONFIDENCE_GATING (IntentData (currentIntent (wctx w1))) sid uid) w1 of
        (Some e, w2) \<Rightarrow> (Some e, w2)
      | (None, w2) \<Rightarrow>
     (case (if enableAntiPatternDetection (config p)
            then emit p (mk_event ANTI_PATTERN_DETECTION HistoryData sid uid) w2
            else (None, w2)) of
        (Some e, w3) \<Rightarrow> (Some e, w3)
      | (None, w3) \<Rightarrow>
     (if enableAntiPatternDetection (config p) \<and> antiPatternDetected (wctx w3) \<noteq> None
      then (None, w3)
      else
     (case emit p (mk_event STRATEGY_SELECTION (IntentData (currentIntent (wctx w3))) sid uid) w3 of
        (Some e, w4) \<Rightarrow> (Some e, w4)
      | (None, w4) \<Rightarrow>
          emit p (mk_event EXECUTION
                    (ExecutionData (currentIntent (wctx w4)) (selectedStrategy (wctx w4))) sid uid)
            w4)))))"

text \<open>\<open>process\<close> returns the context, or rethrows; either way what the stages wrote
  stays in the session map.\<close>

text \<open>"Get or create context": the context of the session, a new one when the map has
  none.\<close>

definition session_context :: "Pipeline \<Rightarrow> string \<Rightarrow> string option \<Rightarrow> PipelineContext" where
  "session_context p sid uid =
     (case contexts p sid of Some c \<Rightarrow> c | None \<Rightarrow> new_context sid uid)"

definition process ::
  "string \<Rightarrow> string \<Rightarrow> string option \<Rightarrow> Pipeline \<Rightarrow> (error + PipelineContext) \<times> Pipeline" where
  "process input sid uid p =
     (let c0 = session_context p sid uid;
          (r, w) = run_stages p input sid uid \<lparr> wctx = c0, wheap = heap p \<rparr>
      in ((case r of Some e \<Rightarrow> Inl e | None \<Rightarrow> Inr (wctx w)),
          p\<lparr> contexts := (contexts p)(sid \<mapsto> wctx w), heap := wheap w \<rparr>))"

definition submitFeedback ::
  "string \<Rightarrow> UserFeedback \<Rightarrow> Pipeline \<Rightarrow> error option \<times> Pipeline" where
  "submitFeedback sid feedback p =
     (case contexts p sid of
        None \<Rightarrow> (Some (Error (''Session '' @ sid @ '' not found'')), p)
      | Some c \<Rightarrow>
          (let (r, w) = emit p (mk_event FEEDBACK_COLLECTION (FeedbackData feedback)
                                  (sessionId c) (userId c))
                          \<lparr> wctx = c, wheap = heap p \<rparr>
           in (r, p\<lparr> contexts := (contexts p)(sid \<mapsto> wctx w), heap := wheap w \<rparr>)))"

definition getContext :: "string \<Rightarrow> Pipeline \<Rightarrow> PipelineContext option" where
  "getContext sid p = contexts p sid"

definition clearContext :: "string \<Rightarrow> Pipeline \<Rightarrow> Pipeline" where
  "clearContext sid p = p\<lparr> contexts := (contexts p)(sid := None) \<rparr>"

subsection \<open>Vocabulary for the statements about the pipeline\<close>

text \<open>The three events a turn emits up to the detection stage, and the two it emits after
  it, for a turn whose intent object has address \<open>r\<close>.\<close>

definition stage_events :: "string \<Rightarrow> string \<Rightarrow> string option \<Rightarrow> IntentRef \<Rightarrow> PipelineEvent list" where
  "stage_events input sid uid r =
     [mk_event INTENT_CLASSIFICATION (InputData input) sid uid,
      mk_event CONFIDENCE_GATING (IntentData (Some r)) sid uid,
      mk_event ANTI_PATTERN_DETECTION HistoryData sid uid]"

definition late_events ::
  "PipelineConfig \<Rightarrow> string \<Rightarrow> string \<Rightarrow> string option \<Rightarrow> IntentRef \<Rightarrow> PipelineContext
     \<Rightarrow> PipelineEvent list" where
  "late_events cfg input sid uid r c =
     [mk_event STRATEGY_SELECTION (IntentData (Some r)) sid uid,
      mk_event EXECUTION
        (ExecutionData (Some r) (Some (selectStrategy (gate cfg (classifyIntent input)) c)))
        sid uid]"

text \<open>The value of \<open>context.antiPatternDetected\<close> when the detection stage of a turn
  ends: the new finding if the detector returns one, else what the field held before.\<close>

definition detection_flag ::
  "PipelineConfig \<Rightarrow> PipelineContext \<Rightarrow> PipelineEvent list \<Rightarrow> AntiPattern option" where
  "detection_flag cfg c0 early =
     (case detect_in cfg (history c0 @ early) of
        None \<Rightarrow> antiPatternDetected c0
      | Some a \<Rightarrow> Some a)"

text \<open>The calls a client makes on a pipeline without clearing a session or registering
  a handler, and a run of such calls.\<close>

datatype call = Process string string "string option" | SubmitFeedback string UserFeedback

fun run_call :: "call \<Rightarrow> Pipeline \<Rightarrow> Pipeline" where
  "run_call (Process input sid uid) p = snd (process input sid uid p)"
| "run_call (SubmitFeedback sid fb) p = snd (submitFeedback sid fb p)"

fun run_calls :: "call list \<Rightarrow> Pipeline \<Rightarrow> Pipeline" where
  "run_calls [] p = p"
| "run_calls (c # cs) p = run_calls cs (run_call c p)"

text \<open>A handler that leaves \<open>context.history\<close> as it found it, as every default handler
  does.\<close>

definition keeps_history :: "EventHandler \<Rightarrow> bool" where
  "keeps_history h = (\<forall>ev w. history (wctx (snd (h ev w))) = history (wctx w))"

text \<open>An observer for the statements: it throws unless the event it is given is the last
  entry of the history it sees, and writes nothing.\<close>

definition sees_event :: EventHandler where
  "sees_event ev w =
     (if history (wctx w) \<noteq> [] \<and> last (history (wctx w)) = ev
      then (None, w)
      else (Some (Error ''the event is not the last entry of the history''), w))"

text \<open>
  The two halves of the \<open>try\<close> block of \<open>process\<close>: the stages up to the end of the
  detection stage, and the two stages after the test of \<open>context.antiPatternDetected\<close>.
  \<open>run_stages\<close> is the first, the test, and the second (lemma \<open>run_stages_split\<close>).
\<close>

definition through_detection ::
  "Pipeline \<Rightarrow> string \<Rightarrow> string \<Rightarrow> string option \<Rightarrow> World \<Rightarrow> error option \<times> World" where
  "through_detection p input sid uid w0 =
     (case emit p (mk_event INTENT_CLASSIFICATION (InputData input) sid uid) w0 of
        (Some e, w1) \<Rightarrow> (Some e, w1)
      | (None, w1) \<Rightarrow>
     (case emit p (mk_event CONFIDENCE_GATING (IntentData (currentIntent (wctx w1))) sid uid) w1 of
        (Some e, w2) \<Rightarrow> (Some e, w2)
      | (None, w2) \<Rightarrow>
     (if enableAntiPatternDetection (config p)
      then emit p (mk_event ANTI_PATTERN_DETECTION HistoryData sid uid) w2
      else (None, w2))))"

definition after_detection ::
  "Pipeline \<Rightarrow> string \<Rightarrow> string option \<Rightarrow> World \<Rightarrow> error option \<times> World" where
  "after_detection p sid uid w3 =
     (case emit p (mk_event STRATEGY_SELECTION (IntentData (currentIntent (wctx w3))) sid uid) w3 of
        (Some e, w4) \<Rightarrow> (Some e, w4)
      | (None, w4) \<Rightarrow>
          emit p (mk_event EXECUTION
                    (ExecutionData (currentIntent (wctx w4)) (selectedStrategy (wctx w4))) sid uid)
            w4)"

text \<open>The stages of a turn that runs to its end, in order.\<close>

definition stage_order :: "PipelineConfig \<Rightarrow> PipelineStage list" where
  "stage_order cfg =
     (if enableAntiPatternDetection cfg
      then [INTENT_CLASSIFICATION, CONFIDENCE_GATING, ANTI_PATTERN_DETECTION,
            STRATEGY_SELECTION, EXECUTION]
      else [INTENT_CLASSIFICATION, CONFIDENCE_GATING, STRATEGY_SELECTION, EXECUTION])"

text \<open>A handler that leaves \<open>context.selectedStrategy\<close> and \<open>context.executionResult\<close>
  as it found them, as the default handlers of the first three stages do.\<close>

definition keeps_results :: "EventHandler \<Rightarrow> bool" where
  "keeps_results h =
     (\<forall>ev w. selectedStrategy (wctx (snd (h ev w))) = selectedStrategy (wctx w)
            \<and> executionResult (wctx (snd (h ev w))) = executionResult (wctx w))"

text \<open>An observer for the statements: it sets \<open>context.antiPatternDetected\<close> to a finding
  of its own and writes nothing else.\<close>

definition raises_finding :: "AntiPattern \<Rightarrow> EventHandler" where
  "raises_finding a ev w = (None, w\<lparr> wctx := (wctx w)\<lparr> antiPatternDetected := Some a \<rparr> \<rparr>)"

text \<open>\<open>n\<close> consecutive turns with the same input in one session.\<close>

fun turns :: "nat \<Rightarrow> string \<Rightarrow> string \<Rightarrow> Pipeline \<Rightarrow> Pipeline" where
  "turns 0 input sid p = p"
| "turns (Suc n) input sid p = turns n input sid (snd (process input sid None p))"

text \<open>A list of events without a strategy-selection or an execution event.\<close>

definition quiet :: "PipelineEvent list \<Rightarrow> bool" where
  "quiet es = (\<forall>e \<in> set es. stage e \<noteq> STRATEGY_SELECTION \<and> stage e \<noteq> EXECUTION)"

section \<open>The preference model (src/feedback/PreferenceModel.ts)\<close>

subsection \<open>Numbers that may be NaN\<close>

text \<open>
  The numbers a caller passes (features, ratings, timings) are finite and are \<open>real\<close>.
  The code itself makes a NaN in one place: \<open>contextVector[i]\<close> is \<open>undefined\<close> for
  \<open>i \<ge> 6\<close>, and arithmetic on \<open>undefined\<close> gives NaN. A weight is therefore a
  \<open>jsnum\<close>, and NaN propagates through sums and products as it does in the runtime.
\<close>

datatype jsnum = Num real | NaN

fun nadd :: "jsnum \<Rightarrow> jsnum \<Rightarrow> jsnum" where
  "nadd (Num a) (Num b) = Num (a + b)"
| "nadd _ _ = NaN"

fun nsub :: "jsnum \<Rightarrow> jsnum \<Rightarrow> jsnum" where
  "nsub (Num a) (Num b) = Num (a - b)"
| "nsub _ _ = NaN"

fun nmul :: "jsnum \<Rightarrow> jsnum \<Rightarrow> jsnum" where
  "nmul (Num a) (Num b) = Num (a * b)"
| "nmul _ _ = NaN"

text \<open>\<open>b[i]\<close> used as a number: the element, or NaN past the end of the array.\<close>

definition at_index :: "real list \<Rightarrow> nat \<Rightarrow> jsnum" where
  "at_index b i = (if i < length b then Num (b ! i) else NaN)"

subsection \<open>State and construction\<close>

record RewardEntry =
  entry_context :: ContextFeatures
  entry_strategy :: StrategyType
  reward :: real

text \<open>\<open>strategyWeights\<close> is a \<open>Map\<close>: a list of entries in insertion order.\<close>

record PreferenceState =
  strategyWeights :: "(StrategyType \<times> jsnum list) list"
  explorationRate :: real
  totalIterations :: nat
  rewardHistory :: "RewardEntry list"

record PreferenceModel =
  state :: PreferenceState
  alpha :: real
  featureDimension :: nat

text \<open>\<open>Object.values(StrategyType)\<close>, in declaration order.\<close>

definition all_strategies :: "StrategyType list" where
  "all_strategies = [AUTONOMOUS, CONFIRMATION, GUIDED, DELEGATED, LEARNING]"

text \<open>The constructor. \<open>rnd i\<close> is what the \<open>i\<close>-th call of \<open>Math.random()\<close> returns;
  the constructor makes six calls for each strategy, in the order of the strategies.\<close>

definition new_PreferenceModel :: "real \<Rightarrow> (nat \<Rightarrow> real) \<Rightarrow> PreferenceModel" where
  "new_PreferenceModel a rnd =
     \<lparr> state =
         \<lparr> strategyWeights =
             map (\<lambda>(k, s). (s, map (\<lambda>j. Num (rnd (6 * k + j) * (1 / 10))) [0..<6]))
               (enumerate 0 all_strategies),
           explorationRate = 1,
           totalIterations = 0,
           rewardHistory = [] \<rparr>,
       alpha = a,
       featureDimension = 6 \<rparr>"

text \<open>A source of draws for concrete models: every call returns one half.\<close>

definition fixed_draws :: "nat \<Rightarrow> real" where
  "fixed_draws i = 1 / 2"

subsection \<open>Vectors\<close>

fun intentTypeToNumeric :: "IntentType \<Rightarrow> real" where
  "intentTypeToNumeric VIBE_CHECK = 25 / 100"
| "intentTypeToNumeric MOVE_MAKE = 5 / 10"
| "intentTypeToNumeric CLARITY_CALL = 75 / 100"
| "intentTypeToNumeric RAPPORT_BUILD = 1"

definition contextToVector :: "ContextFeatures \<Rightarrow> real list" where
  "contextToVector c =
     [intentTypeToNumeric (intentType c),
      taskComplexity c,
      userExperience c,
      timeOfDay c / 24,
      sessionLength c / 60,
      previousSuccessRate c]"

text \<open>\<open>a.reduce((sum, val, i) => sum + val * b[i], 0)\<close>: the loop of \<open>reduce\<close> from
  index \<open>i\<close> with the sum so far (\<open>acc\<close>).\<close>

fun dot_from :: "nat \<Rightarrow> jsnum \<Rightarrow> jsnum list \<Rightarrow> real list \<Rightarrow> jsnum" where
  "dot_from i acc [] b = acc"
| "dot_from i acc (val # rest) b =
     dot_from (i + 1) (nadd acc (nmul val (at_index b i))) rest b"

definition dotProduct :: "jsnum list \<Rightarrow> real list \<Rightarrow> jsnum" where
  "dotProduct a b = dot_from 0 (Num 0) a b"

subsection \<open>Selection\<close>

definition calculateUncertainty :: "PreferenceState \<Rightarrow> StrategyType \<Rightarrow> real" where
  "calculateUncertainty st strategy =
     (let strategyCount = length (filter (\<lambda>h. entry_strategy h = strategy) (rewardHistory st))
      in sqrt (2 * ln (real (totalIterations st) + 1) / (real strategyCount + 1)))"

text \<open>\<open>ucbScore > bestScore\<close>, where \<open>bestScore\<close> starts at \<open>-Infinity\<close> (\<open>None\<close>) and a
  comparison with NaN is false.\<close>

fun exceeds :: "jsnum \<Rightarrow> real option \<Rightarrow> bool" where
  "exceeds NaN best = False"
| "exceeds (Num x) None = True"
| "exceeds (Num x) (Some b) = (x > b)"

text \<open>The loop over the entries of the map, carrying \<open>bestStrategy\<close> and \<open>bestScore\<close>.\<close>

fun best_from ::
  "PreferenceModel \<Rightarrow> real list \<Rightarrow> (StrategyType \<times> jsnum list) list
     \<Rightarrow> StrategyType \<times> real option \<Rightarrow> StrategyType \<times> real option" where
  "best_from m cv [] best = best"
| "best_from m cv ((strategy, weights) # rest) (bestStrategy, bestScore) =
     (let expectedReward = dotProduct weights cv;
          uncertainty = calculateUncertainty (state m) strategy;
          ucbScore = nadd expectedReward (Num (alpha m * uncertainty))
      in best_from m cv rest
           (if exceeds ucbScore bestScore
            then (strategy, (case ucbScore of Num x \<Rightarrow> Some x | NaN \<Rightarrow> bestScore))
            else (bestStrategy, bestScore)))"

definition pm_selectStrategy :: "ContextFeatures \<Rightarrow> PreferenceModel \<Rightarrow> StrategyType \<times> PreferenceModel" where
  "pm_selectStrategy c m =
     (let contextVector = contextToVector c;
          (bestStrategy, bestScore) =
            best_from m contextVector (strategyWeights (state m)) (AUTONOMOUS, None)
      in (bestStrategy,
          m\<lparr> state := (state m)
                \<lparr> explorationRate := max (1 / 10) (explorationRate (state m) * (999 / 1000)),
                  totalIterations := totalIterations (state m) + 1 \<rparr> \<rparr>))"

subsection \<open>Learning from feedback\<close>

definition feedbackToReward :: "UserFeedback \<Rightarrow> real" where
  "feedbackToReward feedback =
     (let r0 = 0;
          r1 = (case rating feedback of None \<Rightarrow> r0 | Some x \<Rightarrow> r0 + x / 5 * (6 / 10));
          r2 = (case implicit feedback of
                  None \<Rightarrow> r1
                | Some imp \<Rightarrow>
                    (let a = (if taskCompleted imp then r1 + 4 / 10 else r1);
                         timeScore = max 0 (1 - timeToCompletion imp / 300);
                         b = a + timeScore * (2 / 10);
                         editScore = max 0 (1 - editsMade imp / 10)
                     in b + editScore * (2 / 10)))
      in min 1 (max 0 r2))"

definition updateFromFeedback ::
  "ContextFeatures \<Rightarrow> StrategyType \<Rightarrow> UserFeedback \<Rightarrow> PreferenceModel \<Rightarrow> PreferenceModel" where
  "updateFromFeedback c strategy feedback m =
     (let rwd = feedbackToReward feedback;
          hist = rewardHistory (state m)
                   @ [\<lparr> entry_context = c, entry_strategy = strategy, reward = rwd \<rparr>];
          contextVector = contextToVector c;
          currentWeights = (case map_of (strategyWeights (state m)) strategy of
                              None \<Rightarrow> []
                            | Some ws \<Rightarrow> ws);
          learningRate = (1 / 10) / (1 + real (totalIterations (state m)) * (1 / 1000));
          predicted = dotProduct currentWeights contextVector;
          err = nsub (Num rwd) predicted;
          updatedWeights =
            map (\<lambda>(i, w). nadd w (nmul (nmul (Num learningRate) err) (at_index contextVector i)))
              (enumerate 0 currentWeights)
      in m\<lparr> state := (state m)
               \<lparr> rewardHistory := hist,
                 strategyWeights := AList.update strategy updatedWeights (strategyWeights (state m)) \<rparr> \<rparr>)"

definition getState :: "PreferenceModel \<Rightarrow> PreferenceState" where
  "getState m = state m"

subsection \<open>Persistence: values, JSON, the state as the runtime holds it\<close>

text \<open>
  The values that \<open>JSON.stringify\<close> reads and \<open>JSON.parse\<close> builds. An \<open>Array\<close> or
  an \<open>Object\<close> is an object of the runtime, every other value is a primitive.
\<close>

datatype jsval =
    Undefined
  | Null
  | Bool bool
  | Number jsnum
  | String string
  | Array "jsval list"
  | Object "(string \<times> jsval) list"

text \<open>
  What a value reads after a trip through \<open>JSON.stringify\<close> and \<open>JSON.parse\<close>: NaN
  becomes \<open>null\<close>, \<open>undefined\<close> becomes \<open>null\<close> inside an array and drops the
  property inside an object; finite numbers, strings, booleans and \<open>null\<close> come back as
  they were. (\<open>JSON.stringify(undefined)\<close> itself is no text; the first equation is
  there for the elements of an array, and \<open>exportModel\<close> always passes an object.)
\<close>

fun json_image :: "jsval \<Rightarrow> jsval" where
  "json_image Undefined = Null"
| "json_image Null = Null"
| "json_image (Bool b) = Bool b"
| "json_image (Number NaN) = Null"
| "json_image (Number (Num x)) = Number (Num x)"
| "json_image (String s) = String s"
| "json_image (Array xs) = Array (map json_image xs)"
| "json_image (Object kvs) =
     Object (map (\<lambda>(k, v). (k, json_image v)) (filter (\<lambda>(k, v). v \<noteq> Undefined) kvs))"

text \<open>
  A JSON text is modelled by what \<open>JSON.parse\<close> makes of it: the error it throws, or
  the value it returns. \<open>JSON.stringify\<close> of a value is then the text that parses to
  the image of the value. The syntax of the text plays no part in the code.
\<close>

type_synonym json_text = "error + jsval"

definition JSON_parse :: "json_text \<Rightarrow> error + jsval" where
  "JSON_parse t = t"

definition JSON_stringify :: "jsval \<Rightarrow> json_text" where
  "JSON_stringify v = Inr (json_image v)"

text \<open>\<open>data.key\<close> for one of the four property names that \<open>importModel\<close> reads: a
  TypeError on \<open>null\<close> and \<open>undefined\<close>, the property of an object, and \<open>undefined\<close>
  on anything that has no such property.\<close>

fun get_prop :: "jsval \<Rightarrow> string \<Rightarrow> error + jsval" where
  "get_prop Undefined k = Inl (TypeError ''Cannot read properties of undefined'')"
| "get_prop Null k = Inl (TypeError ''Cannot read properties of null'')"
| "get_prop (Object kvs) k = Inr (case map_of kvs k of None \<Rightarrow> Undefined | Some v \<Rightarrow> v)"
| "get_prop _ k = Inr Undefined"

text \<open>\<open>x.length\<close> of an array or a string; other values have none.\<close>

fun js_length :: "jsval \<Rightarrow> nat option" where
  "js_length (Array xs) = Some (length xs)"
| "js_length (String s) = Some (length s)"
| "js_length _ = None"

fun is_object :: "jsval \<Rightarrow> bool" where
  "is_object (Array xs) = True"
| "is_object (Object kvs) = True"
| "is_object _ = False"

text \<open>\<open>map.set(k, v)\<close>: a primitive key replaces the value of an equal key in place, or
  is added at the end; an object key is equal to itself only, and a key built by
  \<open>JSON.parse\<close> is a new object each time, so it is always added.\<close>

definition map_set :: "jsval \<Rightarrow> jsval \<Rightarrow> (jsval \<times> jsval) list \<Rightarrow> (jsval \<times> jsval) list" where
  "map_set k v entries = (if is_object k then entries @ [(k, v)] else AList.update k v entries)"

text \<open>\<open>item[0]\<close> and \<open>item[1]\<close> of an entry.\<close>

fun entry_part :: "jsval \<Rightarrow> nat \<Rightarrow> jsval" where
  "entry_part (Array xs) i = (if i < length xs then xs ! i else Undefined)"
| "entry_part (Object kvs) i =
     (case map_of kvs (if i = 0 then ''0'' else ''1'') of None \<Rightarrow> Undefined | Some v \<Rightarrow> v)"
| "entry_part _ i = Undefined"

text \<open>The loop of the \<open>Map\<close> constructor over the items of an array: an item that is not
  an object is a TypeError.\<close>

fun add_entries :: "jsval list \<Rightarrow> (jsval \<times> jsval) list \<Rightarrow> error + (jsval \<times> jsval) list" where
  "add_entries [] entries = Inr entries"
| "add_entries (item # items) entries =
     (if is_object item
      then add_entries items (map_set (entry_part item 0) (entry_part item 1) entries)
      else Inl (TypeError ''Iterator value is not an entry object''))"

text \<open>\<open>new Map(iterable)\<close>: \<open>undefined\<close> and \<open>null\<close> give the empty map, an array is
  read item by item, a string iterates over its characters (none of them an object, so
  only the empty string passes), and nothing else is iterable.\<close>

fun new_Map :: "jsval \<Rightarrow> error + (jsval \<times> jsval) list" where
  "new_Map Undefined = Inr []"
| "new_Map Null = Inr []"
| "new_Map (Array items) = add_entries items []"
| "new_Map (String s) =
     (if s = [] then Inr [] else Inl (TypeError ''Iterator value is not an entry object''))"
| "new_Map _ = Inl (TypeError ''object is not iterable'')"

text \<open>
  TypeScript's types are erased when the code runs, and \<open>importModel\<close> assigns values of
  type \<open>any\<close> to the fields of \<open>this.state\<close>. The operations that compute with the
  fields are modelled at their declared types (\<open>PreferenceState\<close>); \<open>importModel\<close> is
  modelled on the state as the runtime holds it, where a field holds any value.
  \<open>runtime_state\<close> reads a typed state as such a state.
\<close>

record RuntimeState =
  rt_strategyWeights :: "(jsval \<times> jsval) list"
  rt_explorationRate :: jsval
  rt_totalIterations :: jsval
  rt_rewardHistory :: jsval

definition features_value :: "ContextFeatures \<Rightarrow> jsval" where
  "features_value c =
     Object [(''intentType'', String (IntentType_str (intentType c))),
             (''taskComplexity'', Number (Num (taskComplexity c))),
             (''userExperience'', Number (Num (userExperience c))),
             (''timeOfDay'', Number (Num (timeOfDay c))),
             (''sessionLength'', Number (Num (sessionLength c))),
             (''previousSuccessRate'', Number (Num (previousSuccessRate c)))]"

definition entry_value :: "RewardEntry \<Rightarrow> jsval" where
  "entry_value e =
     Object [(''context'', features_value (entry_context e)),
             (''strategy'', String (StrategyType_str (entry_strategy e))),
             (''reward'', Number (Num (reward e)))]"

definition weights_value :: "jsnum list \<Rightarrow> jsval" where
  "weights_value ws = Array (map Number ws)"

definition runtime_state :: "PreferenceState \<Rightarrow> RuntimeState" where
  "runtime_state st =
     \<lparr> rt_strategyWeights =
         map (\<lambda>(s, ws). (String (StrategyType_str s), weights_value ws)) (strategyWeights st),
       rt_explorationRate = Number (Num (explorationRate st)),
       rt_totalIterations = Number (Num (real (totalIterations st))),
       rt_rewardHistory = Array (map entry_value (rewardHistory st)) \<rparr>"

text \<open>The object that \<open>exportModel\<close> hands to \<open>JSON.stringify\<close>.
  \<open>Array.from(map.entries())\<close> is the array of the \<open>[key, value]\<close> pairs, and
  \<open>slice(-100)\<close> the last hundred entries of the reward history, or all of them.\<close>

definition export_payload :: "PreferenceModel \<Rightarrow> jsval" where
  "export_payload m =
     Object [(''weights'',
                Array (map (\<lambda>(s, ws). Array [String (StrategyType_str s), weights_value ws])
                         (strategyWeights (state m)))),
             (''explorationRate'', Number (Num (explorationRate (state m)))),
             (''totalIterations'', Number (Num (real (totalIterations (state m))))),
             (''rewardHistory'',
                Array (map entry_value
                         (drop (length (rewardHistory (state m)) - 100)
                            (rewardHistory (state m)))))]"

definition exportModel :: "PreferenceModel \<Rightarrow> json_text" where
  "exportModel m = JSON_stringify (export_payload m)"

text \<open>
  \<open>importModel\<close>, statement by statement (\<open>parsed\<close> is the \<open>data\<close> of the
  source). The \<open>catch\<close> block reports the error and returns, so the result is the
  reported error, if any, and the state that the statements run before the throw have
  left.
\<close>

definition importModel :: "json_text \<Rightarrow> RuntimeState \<Rightarrow> error option \<times> RuntimeState" where
  "importModel serialized st =
     (case JSON_parse serialized of
        Inl e \<Rightarrow> (Some e, st)
      | Inr parsed \<Rightarrow>
     (case get_prop parsed ''weights'' of
        Inl e \<Rightarrow> (Some e, st)
      | Inr w \<Rightarrow>
     (case new_Map w of
        Inl e \<Rightarrow> (Some e, st)
      | Inr entries \<Rightarrow>
     (let st1 = st\<lparr> rt_strategyWeights := entries \<rparr> in
      case get_prop parsed ''explorationRate'' of
        Inl e \<Rightarrow> (Some e, st1)
      | Inr x \<Rightarrow>
     (let st2 = st1\<lparr> rt_explorationRate := x \<rparr> in
      case get_prop parsed ''totalIterations'' of
        Inl e \<Rightarrow> (Some e, st2)
      | Inr n \<Rightarrow>
     (let st3 = st2\<lparr> rt_totalIterations := n \<rparr> in
      case get_prop parsed ''rewardHistory'' of
        Inl e \<Rightarrow> (Some e, st3)
      | Inr h \<Rightarrow> (None, st3\<lparr> rt_rewardHistory := h \<rparr>)))))))"

section \<open>Verification\<close>

subsection \<open>One stage at a time, with the default handlers\<close>

lemma deref_append_new [simp]: "deref (h @ [i]) (length h) = Some i"
  by (simp add: deref_def)

lemma default_bus:
  assumes "eventBus p = defaultHandlers (config p)"
  shows "eventBus p INTENT_CLASSIFICATION = [classificationHandler]"
    and "eventBus p CONFIDENCE_GATING = [gatingHandler (config p)]"
    and "eventBus p ANTI_PATTERN_DETECTION = [antiPatternHandler (config p)]"
    and "eventBus p STRATEGY_SELECTION = [strategyHandler]"
    and "eventBus p EXECUTION = [executionHandler]"
    and "eventBus p FEEDBACK_COLLECTION = [feedbackHandler]"
  using assms by simp_all

lemma emit_classification:
  assumes "eventBus p INTENT_CLASSIFICATION = [classificationHandler]"
  shows "emit p (mk_event INTENT_CLASSIFICATION (InputData input) sid uid) w =
           (None, \<lparr> wctx = (wctx w)\<lparr> history := history (wctx w)
                              @ [mk_event INTENT_CLASSIFICATION (InputData input) sid uid],
                            currentIntent := Some (length (wheap w)) \<rparr>,
                    wheap = wheap w @ [classifyIntent input] \<rparr>)"
  using assms by (simp add: emit_def push_event_def classificationHandler_def mk_event_def)

lemma emit_gating:
  assumes "eventBus p CONFIDENCE_GATING = [gatingHandler (config p)]"
    and "deref (wheap w) r = Some i"
  shows "emit p (mk_event CONFIDENCE_GATING (IntentData (Some r)) sid uid) w =
           (None, \<lparr> wctx = (wctx w)\<lparr> history := history (wctx w)
                              @ [mk_event CONFIDENCE_GATING (IntentData (Some r)) sid uid] \<rparr>,
                    wheap = (wheap w)[r := gate (config p) i] \<rparr>)"
  using assms by (simp add: emit_def push_event_def gatingHandler_def mk_event_def)

lemma emit_detection:
  assumes "eventBus p ANTI_PATTERN_DETECTION = [antiPatternHandler (config p)]"
  shows "emit p (mk_event ANTI_PATTERN_DETECTION HistoryData sid uid) w =
           (None, \<lparr> wctx = (wctx w)\<lparr> history := history (wctx w)
                              @ [mk_event ANTI_PATTERN_DETECTION HistoryData sid uid],
                            antiPatternDetected :=
                              (case detect_in (config p)
                                      (history (wctx w)
                                         @ [mk_event ANTI_PATTERN_DETECTION HistoryData sid uid]) of
                                 None \<Rightarrow> antiPatternDetected (wctx w)
                               | Some a \<Rightarrow> Some a) \<rparr>,
                    wheap = wheap w \<rparr>)"
  using assms
  by (simp add: emit_def push_event_def antiPatternHandler_def detectAntiPatterns_def
        mk_event_def split: option.splits)

lemma emit_strategy:
  assumes "eventBus p STRATEGY_SELECTION = [strategyHandler]"
    and "deref (wheap w) r = Some i"
  shows "emit p (mk_event STRATEGY_SELECTION (IntentData (Some r)) sid uid) w =
           (None, \<lparr> wctx = (wctx w)\<lparr> history := history (wctx w)
                              @ [mk_event STRATEGY_SELECTION (IntentData (Some r)) sid uid],
                            selectedStrategy := Some (selectStrategy i (wctx w)) \<rparr>,
                    wheap = wheap w \<rparr>)"
  using assms
  by (simp add: emit_def push_event_def strategyHandler_def mk_event_def selectStrategy_def)

lemma emit_execution:
  assumes "eventBus p EXECUTION = [executionHandler]"
    and "deref (wheap w) r = Some i"
  shows "emit p (mk_event EXECUTION (ExecutionData (Some r) (Some s)) sid uid) w =
           (None, \<lparr> wctx = (wctx w)\<lparr> history := history (wctx w)
                              @ [mk_event EXECUTION (ExecutionData (Some r) (Some s)) sid uid],
                            executionResult := Some (execute i s) \<rparr>,
                    wheap = wheap w \<rparr>)"
  using assms by (simp add: emit_def push_event_def executionHandler_def mk_event_def)

subsection \<open>A whole turn, with the default handlers\<close>

lemma run_stages_default_early:
  assumes bus: "eventBus p = defaultHandlers (config p)"
    and en: "enableAntiPatternDetection (config p)"
    and flag: "detection_flag (config p) (wctx w0)
                 (stage_events input sid uid (length (wheap w0))) \<noteq> None"
  shows "run_stages p input sid uid w0 =
           (None,
            \<lparr> wctx = (wctx w0)
                \<lparr> history := history (wctx w0) @ stage_events input sid uid (length (wheap w0)),
                  currentIntent := Some (length (wheap w0)),
                  antiPatternDetected :=
                    detection_flag (config p) (wctx w0)
                      (stage_events input sid uid (length (wheap w0))) \<rparr>,
              wheap = wheap w0 @ [gate (config p) (classifyIntent input)] \<rparr>)"
  using en flag
  by (auto simp add: run_stages_def emit_classification emit_gating emit_detection
        default_bus [OF bus] stage_events_def detection_flag_def
        split: option.splits)

lemma run_stages_default_full:
  assumes bus: "eventBus p = defaultHandlers (config p)"
    and en: "enableAntiPatternDetection (config p)"
    and flag: "detection_flag (config p) (wctx w0)
                 (stage_events input sid uid (length (wheap w0))) = None"
  shows "run_stages p input sid uid w0 =
           (None,
            \<lparr> wctx = (wctx w0)
                \<lparr> history := history (wctx w0) @ stage_events input sid uid (length (wheap w0))
                     @ late_events (config p) input sid uid (length (wheap w0)) (wctx w0),
                  currentIntent := Some (length (wheap w0)),
                  selectedStrategy :=
                    Some (selectStrategy (gate (config p) (classifyIntent input)) (wctx w0)),
                  executionResult :=
                    Some (execute (gate (config p) (classifyIntent input))
                            (selectStrategy (gate (config p) (classifyIntent input)) (wctx w0))),
                  antiPatternDetected := None \<rparr>,
              wheap = wheap w0 @ [gate (config p) (classifyIntent input)] \<rparr>)"
  using en flag
  by (auto simp add: run_stages_def emit_classification emit_gating emit_detection
        emit_strategy emit_execution default_bus [OF bus] stage_events_def late_events_def
        detection_flag_def selectStrategy_def split: option.splits)

lemma run_stages_default_disabled:
  assumes bus: "eventBus p = defaultHandlers (config p)"
    and en: "\<not> enableAntiPatternDetection (config p)"
  shows "run_stages p input sid uid w0 =
           (None,
            \<lparr> wctx = (wctx w0)
                \<lparr> history := history (wctx w0)
                     @ take 2 (stage_events input sid uid (length (wheap w0)))
                     @ late_events (config p) input sid uid (length (wheap w0)) (wctx w0),
                  currentIntent := Some (length (wheap w0)),
                  selectedStrategy :=
                    Some (selectStrategy (gate (config p) (classifyIntent input)) (wctx w0)),
                  executionResult :=
                    Some (execute (gate (config p) (classifyIntent input))
                            (selectStrategy (gate (config p) (classifyIntent input)) (wctx w0))) \<rparr>,
              wheap = wheap w0 @ [gate (config p) (classifyIntent input)] \<rparr>)"
  using en
  by (simp add: run_stages_def emit_classification emit_gating emit_strategy emit_execution
        default_bus [OF bus] stage_events_def late_events_def selectStrategy_def)

lemma stage_events_stages:
  "map stage (stage_events input sid uid r)
     = [INTENT_CLASSIFICATION, CONFIDENCE_GATING, ANTI_PATTERN_DETECTION]"
  by (simp add: stage_events_def mk_event_def)

lemma late_events_stages:
  "map stage (late_events cfg input sid uid r c) = [STRATEGY_SELECTION, EXECUTION]"
  by (simp add: late_events_def mk_event_def)

subsection \<open>A turn with the default handlers, as one statement\<close>

lemma process_default_turn:
  assumes bus: "eventBus p = defaultHandlers (config p)"
  shows "\<exists>ctx' p'. process input sid uid p = (Inr ctx', p')
           \<and> contexts p' sid = Some ctx'
           \<and> (let c0 = session_context p sid uid;
                   early = stage_events input sid uid (length (heap p));
                   late = late_events (config p) input sid uid (length (heap p)) c0;
                   flag = detection_flag (config p) c0 early
               in map stage early = [INTENT_CLASSIFICATION, CONFIDENCE_GATING, ANTI_PATTERN_DETECTION]
                  \<and> map stage late = [STRATEGY_SELECTION, EXECUTION]
                  \<and> (if enableAntiPatternDetection (config p)
                      then antiPatternDetected ctx' = flag
                           \<and> (if flag \<noteq> None
                               then history ctx' = history c0 @ early
                                    \<and> selectedStrategy ctx' = selectedStrategy c0
                                    \<and> executionResult ctx' = executionResult c0
                               else history ctx' = history c0 @ early @ late
                                    \<and> selectedStrategy ctx'
                                        = Some (selectStrategy (gate (config p) (classifyIntent input)) c0)
                                    \<and> executionResult ctx'
                                        = Some (execute (gate (config p) (classifyIntent input))
                                            (selectStrategy (gate (config p) (classifyIntent input)) c0)))
                      else history ctx' = history c0 @ take 2 early @ late
                           \<and> selectedStrategy ctx'
                               = Some (selectStrategy (gate (config p) (classifyIntent input)) c0)
                           \<and> executionResult ctx'
                               = Some (execute (gate (config p) (classifyIntent input))
                                   (selectStrategy (gate (config p) (classifyIntent input)) c0))))"
proof (cases "enableAntiPatternDetection (config p)")
  case False
  then show ?thesis
    by (simp add: process_def run_stages_default_disabled [OF bus] stage_events_stages
          late_events_stages Let_def)
next
  case en: True
  show ?thesis
  proof (cases "detection_flag (config p) (session_context p sid uid)
                  (stage_events input sid uid (length (heap p))) = None")
    case True
    with en show ?thesis
      by (simp add: process_def run_stages_default_full [OF bus] stage_events_stages
            late_events_stages Let_def)
  next
    case False
    with en show ?thesis
      by (simp add: process_def run_stages_default_early [OF bus] stage_events_stages
            late_events_stages Let_def)
  qed
qed

subsection \<open>C3: confidence gating\<close>

lemma gate_type:
  "intent_type (gate cfg i)
     = (if overall (confidence i) < confidenceThreshold cfg then CLARITY_CALL else intent_type i)"
  by (simp add: gate_def)

lemma gate_frame:
  "confidence (gate cfg i) = confidence i"
  "rawInput (gate cfg i) = rawInput i"
  "extractedEntities (gate cfg i) = extractedEntities i"
  by (simp_all add: gate_def)

text \<open>
  Claim C3. The default gating handler, run on an event whose payload holds the address
  \<open>r\<close> of an intent object \<open>i\<close>, does not throw and writes to that object only. The
  type of the object becomes \<open>CLARITY_CALL\<close> when \<open>overall\<close> is strictly below the
  configured threshold and stays what it was when \<open>overall\<close> is at or above it; the four
  sub-scores and \<open>overall\<close> are unchanged in both cases.
\<close>

theorem gating_forces_clarification_below_threshold:
  assumes "data_intent (data ev) = Some r" and "deref (wheap w) r = Some i"
  shows "gatingHandler cfg ev w = (None, w\<lparr> wheap := (wheap w)[r := gate cfg i] \<rparr>)
         \<and> intent_type (gate cfg i)
             = (if overall (confidence i) < confidenceThreshold cfg
                then CLARITY_CALL else intent_type i)
         \<and> patternMatch (confidence (gate cfg i)) = patternMatch (confidence i)
         \<and> clarity (confidence (gate cfg i)) = clarity (confidence i)
         \<and> templateCoverage (confidence (gate cfg i)) = templateCoverage (confidence i)
         \<and> historicalSuccess (confidence (gate cfg i)) = historicalSuccess (confidence i)
         \<and> overall (confidence (gate cfg i)) = overall (confidence i)"
  using assms by (simp add: gatingHandler_def gate_type gate_frame)

text \<open>Witness for C3: the input \<open>Create a new service\<close> has \<open>overall = 0.825\<close>, below
  a threshold of 0.9, and its type is forced from \<open>MOVE_MAKE\<close> to \<open>CLARITY_CALL\<close>.\<close>

lemma classify_create:
  "classifyIntent ''Create a new service''
     = \<lparr> intent_type = MOVE_MAKE,
         confidence = \<lparr> patternMatch = 85 / 100, clarity = 9 / 10, templateCoverage = 75 / 100,
                        historicalSuccess = 8 / 10, overall = 825 / 1000 \<rparr>,
         rawInput = ''Create a new service'', extractedEntities = [] \<rparr>"
  by code_simp

theorem gating_forces_clarification_below_threshold_witness:
  "data_intent (data (mk_event CONFIDENCE_GATING (IntentData (Some 0)) ''s'' None)) = Some 0
   \<and> deref (wheap \<lparr> wctx = new_context ''s'' None,
                     wheap = [classifyIntent ''Create a new service''] \<rparr>) 0
       = Some (classifyIntent ''Create a new service'')
   \<and> intent_type (classifyIntent ''Create a new service'') = MOVE_MAKE
   \<and> fst (gatingHandler (DEFAULT_CONFIG\<lparr> confidenceThreshold := 9 / 10 \<rparr>)
            (mk_event CONFIDENCE_GATING (IntentData (Some 0)) ''s'' None)
            \<lparr> wctx = new_context ''s'' None,
              wheap = [classifyIntent ''Create a new service''] \<rparr>) = None
   \<and> map intent_type
         (wheap (snd (gatingHandler (DEFAULT_CONFIG\<lparr> confidenceThreshold := 9 / 10 \<rparr>)
            (mk_event CONFIDENCE_GATING (IntentData (Some 0)) ''s'' None)
            \<lparr> wctx = new_context ''s'' None,
              wheap = [classifyIntent ''Create a new service''] \<rparr>))) = [CLARITY_CALL]
   \<and> map (\<lambda>i. overall (confidence i))
         (wheap (snd (gatingHandler (DEFAULT_CONFIG\<lparr> confidenceThreshold := 9 / 10 \<rparr>)
            (mk_event CONFIDENCE_GATING (IntentData (Some 0)) ''s'' None)
            \<lparr> wctx = new_context ''s'' None,
              wheap = [classifyIntent ''Create a new service''] \<rparr>))) = [825 / 1000]"
proof -
  let ?ev = "mk_event CONFIDENCE_GATING (IntentData (Some 0)) ''s'' None"
  let ?w = "\<lparr> wctx = new_context ''s'' None, wheap = [classifyIntent ''Create a new service''] \<rparr>"
  have a: "data_intent (data ?ev) = Some 0"
    by (simp add: mk_event_def)
  have b: "deref (wheap ?w) 0 = Some (classifyIntent ''Create a new service'')"
    by (simp add: deref_def)
  from gating_forces_clarification_below_threshold
         [OF a b, of "DEFAULT_CONFIG\<lparr> confidenceThreshold := 9 / 10 \<rparr>"] a b
  show ?thesis
    by (simp add: classify_create gate_def)
qed

subsection \<open>C4: strategy selection\<close>

lemma first_turn_flag_default:
  "detection_flag DEFAULT_CONFIG (new_context sid uid)
     (stage_events ''Create a new service'' sid uid 0) = None"
  by (simp add: detection_flag_def detect_in_def clarificationCount_def short_input_def
        stage_events_def mk_event_def new_context_def recentEvents_def DEFAULT_CONFIG_def)

lemma new_Pipeline_default:
  "config (new_Pipeline no_overrides) = DEFAULT_CONFIG"
  "eventBus (new_Pipeline no_overrides) = defaultHandlers DEFAULT_CONFIG"
  "contexts (new_Pipeline no_overrides) = Map.empty"
  "heap (new_Pipeline no_overrides) = []"
  by (simp_all add: new_Pipeline_def merge_config_def no_overrides_def DEFAULT_CONFIG_def)

text \<open>
  Claim C4. The strategy that \<open>selectStrategy\<close> returns is a function of the intent type
  and of \<open>overall\<close> alone: \<open>VIBE_CHECK\<close> gives autonomous, \<open>CLARITY_CALL\<close> guided,
  \<open>RAPPORT_BUILD\<close> autonomous, and \<open>MOVE_MAKE\<close> autonomous when \<open>overall > 0.9\<close>
  and confirmation otherwise. A first turn with the input \<open>Create a new service\<close> on a
  pipeline with the default configuration (threshold 0.7) returns a context whose intent
  has type \<open>MOVE_MAKE\<close> and \<open>overall = (0.85 + 0.9 + 0.75 + 0.8) / 4 = 0.825\<close>, and
  whose strategy is confirmation.
\<close>

theorem selectStrategy_by_type_and_overall:
  "(\<exists>f. \<forall>i c. selectStrategy i c = f (intent_type i) (overall (confidence i)))
   \<and> (\<forall>i c. strategy_type (selectStrategy i c)
               = (case intent_type i of
                    VIBE_CHECK \<Rightarrow> AUTONOMOUS
                  | MOVE_MAKE \<Rightarrow>
                      (if overall (confidence i) > 9 / 10 then AUTONOMOUS else CONFIRMATION)
                  | CLARITY_CALL \<Rightarrow> GUIDED
                  | RAPPORT_BUILD \<Rightarrow> AUTONOMOUS))
   \<and> (\<exists>ctx' p' r i.
          process ''Create a new service'' sid uid (new_Pipeline no_overrides) = (Inr ctx', p')
          \<and> currentIntent ctx' = Some r \<and> deref (heap p') r = Some i
          \<and> intent_type i = MOVE_MAKE
          \<and> overall (confidence i) = (85 / 100 + 9 / 10 + 75 / 100 + 8 / 10) / 4
          \<and> overall (confidence i) = 825 / 1000
          \<and> map_option strategy_type (selectedStrategy ctx') = Some CONFIRMATION)"
proof (intro conjI)
  let ?f = "\<lambda>ty ov. selectStrategy
              \<lparr> intent_type = ty,
                confidence = \<lparr> patternMatch = 0, clarity = 0, templateCoverage = 0,
                               historicalSuccess = 0, overall = ov \<rparr>,
                rawInput = [], extractedEntities = [] \<rparr> (new_context [] None)"
  show "\<exists>f. \<forall>i c. selectStrategy i c = f (intent_type i) (overall (confidence i))"
    by (rule exI [of _ ?f]) (simp add: selectStrategy_def Let_def)
next
  show "\<forall>i c. strategy_type (selectStrategy i c)
               = (case intent_type i of
                    VIBE_CHECK \<Rightarrow> AUTONOMOUS
                  | MOVE_MAKE \<Rightarrow>
                      (if overall (confidence i) > 9 / 10 then AUTONOMOUS else CONFIRMATION)
                  | CLARITY_CALL \<Rightarrow> GUIDED
                  | RAPPORT_BUILD \<Rightarrow> AUTONOMOUS)"
    by (simp add: selectStrategy_def Let_def split: IntentType.splits)
next
  let ?P = "new_Pipeline no_overrides"
  have bus: "eventBus ?P = defaultHandlers (config ?P)"
    by (simp add: new_Pipeline_default)
  have en: "enableAntiPatternDetection (config ?P)"
    by (simp add: new_Pipeline_default DEFAULT_CONFIG_def)
  have flag: "detection_flag (config ?P)
                (wctx \<lparr> wctx = session_context ?P sid uid, wheap = heap ?P \<rparr>)
                (stage_events ''Create a new service'' sid uid
                   (length (wheap \<lparr> wctx = session_context ?P sid uid, wheap = heap ?P \<rparr>)))
              = None"
    by (simp add: new_Pipeline_default session_context_def first_turn_flag_default)
  show "\<exists>ctx' p' r i.
          process ''Create a new service'' sid uid ?P = (Inr ctx', p')
          \<and> currentIntent ctx' = Some r \<and> deref (heap p') r = Some i
          \<and> intent_type i = MOVE_MAKE
          \<and> overall (confidence i) = (85 / 100 + 9 / 10 + 75 / 100 + 8 / 10) / 4
          \<and> overall (confidence i) = 825 / 1000
          \<and> map_option strategy_type (selectedStrategy ctx') = Some CONFIRMATION"
    unfolding process_def Let_def run_stages_default_full [OF bus en flag]
    by (simp add: new_Pipeline_default gate_def DEFAULT_CONFIG_def selectStrategy_def
          classify_create deref_def Let_def)
qed


text \<open>The theorem of C4 at the session \<open>s\<close> without a user id.\<close>

theorem selectStrategy_by_type_and_overall_witness:
  "strategy_type (selectStrategy (classifyIntent ''Create a new service'') (new_context ''s'' None))
     = CONFIRMATION
   \<and> (\<exists>ctx' p'. process ''Create a new service'' ''s'' None (new_Pipeline no_overrides)
                     = (Inr ctx', p')
          \<and> map_option strategy_type (selectedStrategy ctx') = Some CONFIRMATION)"
proof -
  note t = selectStrategy_by_type_and_overall [of "''s''" None]
  from t have "strategy_type (selectStrategy (classifyIntent ''Create a new service'')
                 (new_context ''s'' None)) = CONFIRMATION"
    by (simp add: classify_create)
  moreover from t have "\<exists>ctx' p'. process ''Create a new service'' ''s'' None
                     (new_Pipeline no_overrides) = (Inr ctx', p')
          \<and> map_option strategy_type (selectedStrategy ctx') = Some CONFIRMATION"
    by blast
  ultimately show ?thesis by blast
qed

subsection \<open>The detector\<close>

lemma fold_count:
  "fold (\<lambda>e n. if P e then n + 1 else n) h (k::nat) = k + length (filter P h)"
  by (induction h arbitrary: k) simp_all

lemma clarificationCount_filter:
  "clarificationCount h
     = length (filter (\<lambda>e. stage e = INTENT_CLASSIFICATION \<and> short_input e) h)"
  by (simp add: clarificationCount_def fold_count)

lemma uniqueStages_card: "uniqueStages es = card (stage ` set es)"
  by (simp add: uniqueStages_def length_remdups_card_conv)

lemma length_recentEvents: "length (recentEvents h) = min 5 (length h)"
  by (simp add: recentEvents_def)

subsection \<open>C2: the count behind the infinite-clarification finding\<close>

text \<open>
  Claim C2 says that the detector counts the intent-classification events whose input has
  length below 10. The code tests \<open>intentData?.input && intentData.input.length < 10\<close>,
  and the empty string is falsy: a turn with empty input (length 0, classified
  \<open>CLARITY_CALL\<close> by \<open>classifyIntent\<close>) is not counted. After five turns with the
  empty input, \<open>maxClarificationAttempts = 3\<close> and detection enabled, the history holds
  five classification events with an input shorter than 10, the count of the code is 0,
  and no finding is set.
\<close>

theorem empty_input_turns_are_not_counted:
  "map_option
     (\<lambda>c. (length (filter (\<lambda>e. stage e = INTENT_CLASSIFICATION
                                \<and> (case data_input (data e) of
                                      Some s \<Rightarrow> length s < 10
                                    | None \<Rightarrow> False))
                      (history c)),
           clarificationCount (history c),
           antiPatternDetected c))
     (contexts (turns 5 '''' ''s''
                  (new_Pipeline (no_overrides\<lparr> p_maxClarificationAttempts := Some 3,
                                               p_enableAntiPatternDetection := Some True \<rparr>)))
        ''s'')
   = Some (5, 0, None)"
  by code_simp

text \<open>The scenario of the claim holds: with the input \<open>what?\<close> the finding is set on
  the fourth turn and is still there after the fifth.\<close>

lemma what_scenario:
  "map (\<lambda>n. map_option
              (\<lambda>c. (clarificationCount (history c),
                    map_option pattern_type (antiPatternDetected c),
                    map_option severity (antiPatternDetected c)))
              (contexts (turns n ''what?'' ''s''
                  (new_Pipeline (no_overrides\<lparr> p_maxClarificationAttempts := Some 3,
                                               p_enableAntiPatternDetection := Some True \<rparr>)))
                 ''s''))
       [3, 4, 5]
   = [Some (3, None, None),
      Some (4, Some INFINITE_CLARIFICATION, Some (9 / 10)),
      Some (5, Some INFINITE_CLARIFICATION, Some (9 / 10))]"
  by code_simp

subsection \<open>C9: the stuck-loop check\<close>

text \<open>
  Claim C9 as stated fails: the code reports a stuck loop only when \<open>recentEvents\<close> has
  at least 5 events. A history of one classification event (input \<open>How does X work?\<close>,
  default configuration) has a last-five window spanning one stage, the
  infinite-clarification check does not fire, and the detector returns no finding.
\<close>

theorem stuck_loop_short_history_counterexample:
  "\<not> real (clarificationCount [mk_event INTENT_CLASSIFICATION (InputData ''How does X work?'') ''s'' None])
       > maxClarificationAttempts DEFAULT_CONFIG
   \<and> card (stage ` set (recentEvents
              [mk_event INTENT_CLASSIFICATION (InputData ''How does X work?'') ''s'' None])) < 2
   \<and> detectAntiPatterns DEFAULT_CONFIG
         ((new_context ''s'' None)
            \<lparr> history := [mk_event INTENT_CLASSIFICATION (InputData ''How does X work?'') ''s'' None] \<rparr>)
       = None"
  by (simp add: detectAntiPatterns_def detect_in_def clarificationCount_def short_input_def
        recentEvents_def uniqueStages_def mk_event_def DEFAULT_CONFIG_def)

text \<open>
  Claim C9, amended. The detector first tests the count against
  \<open>maxClarificationAttempts\<close> and, when the count exceeds it, returns an
  infinite-clarification finding of severity 0.9 whatever the recent events are. When
  that check does not fire, the history holds at least 5 events and its last 5 events
  span fewer than 2 distinct stages, it returns a stuck-loop finding of severity 0.85.
  In every other case it returns no finding. The result is one optional finding.
\<close>

theorem detector_checks_in_order:
  "(real (clarificationCount (history c)) > maxClarificationAttempts cfg \<longrightarrow>
      (\<exists>a. detectAntiPatterns cfg c = Some a
           \<and> pattern_type a = INFINITE_CLARIFICATION \<and> severity a = 9 / 10))
   \<and> (\<not> real (clarificationCount (history c)) > maxClarificationAttempts cfg
        \<and> 5 \<le> length (history c)
        \<and> card (stage ` set (drop (length (history c) - 5) (history c))) < 2 \<longrightarrow>
      (\<exists>a. detectAntiPatterns cfg c = Some a
           \<and> pattern_type a = STUCK_LOOP \<and> severity a = 85 / 100))
   \<and> (\<not> real (clarificationCount (history c)) > maxClarificationAttempts cfg
        \<and> \<not> (5 \<le> length (history c)
              \<and> card (stage ` set (drop (length (history c) - 5) (history c))) < 2) \<longrightarrow>
      detectAntiPatterns cfg c = None)"
  by (auto simp add: detectAntiPatterns_def detect_in_def Let_def uniqueStages_card
        length_recentEvents recentEvents_def)

text \<open>Witness for C9: five feedback events in a row are a stuck loop; six short inputs
  in a row are reported as infinite clarification although their last five events span
  one stage as well.\<close>

theorem detector_checks_in_order_witness:
  "(\<not> real (clarificationCount (replicate 5 (mk_event FEEDBACK_COLLECTION (FeedbackData \<lparr> rating = Some 5, explicit = None, implicit = None \<rparr>) ''s'' None)))
        > maxClarificationAttempts DEFAULT_CONFIG
    \<and> 5 \<le> length (replicate 5 (mk_event FEEDBACK_COLLECTION (FeedbackData \<lparr> rating = Some 5, explicit = None, implicit = None \<rparr>) ''s'' None))
    \<and> map_option pattern_type
          (detectAntiPatterns DEFAULT_CONFIG
             ((new_context ''s'' None)
                \<lparr> history := replicate 5 (mk_event FEEDBACK_COLLECTION (FeedbackData \<lparr> rating = Some 5, explicit = None, implicit = None \<rparr>) ''s'' None) \<rparr>))
        = Some STUCK_LOOP)
   \<and> (real (clarificationCount
               (replicate 6 (mk_event INTENT_CLASSIFICATION (InputData ''hm'') ''s'' None)))
        > maxClarificationAttempts DEFAULT_CONFIG
      \<and> map_option pattern_type
          (detectAntiPatterns DEFAULT_CONFIG
             ((new_context ''s'' None)
                \<lparr> history := replicate 6
                     (mk_event INTENT_CLASSIFICATION (InputData ''hm'') ''s'' None) \<rparr>))
        = Some INFINITE_CLARIFICATION)"
proof -
  let ?h5 = "replicate 5 (mk_event FEEDBACK_COLLECTION (FeedbackData \<lparr> rating = Some 5, explicit = None, implicit = None \<rparr>) ''s'' None)"
  let ?h6 = "replicate 6 (mk_event INTENT_CLASSIFICATION (InputData ''hm'') ''s'' None)"
  have n5: "clarificationCount ?h5 = 0"
    by (simp add: clarificationCount_filter mk_event_def)
  have n6: "clarificationCount ?h6 = 6"
    by (simp add: clarificationCount_filter mk_event_def short_input_def)
  have s5: "card (stage ` set (drop (length ?h5 - 5) ?h5)) < 2"
    by simp
  from detector_checks_in_order
         [where c = "(new_context ''s'' None)\<lparr> history := ?h5 \<rparr>" and cfg = DEFAULT_CONFIG]
       detector_checks_in_order
         [where c = "(new_context ''s'' None)\<lparr> history := ?h6 \<rparr>" and cfg = DEFAULT_CONFIG]
       n5 n6 s5
  show ?thesis
    by (auto simp add: DEFAULT_CONFIG_def)
qed

subsection \<open>C10: a finding stays on the session\<close>

lemma process_frame:
  "config (snd (process input sid uid p)) = config p"
  "eventBus (snd (process input sid uid p)) = eventBus p"
  "sid' \<noteq> sid \<Longrightarrow> contexts (snd (process input sid uid p)) sid' = contexts p sid'"
  by (simp_all add: process_def Let_def split: prod.splits)

lemma submitFeedback_frame:
  "config (snd (submitFeedback sid fb p)) = config p"
  "eventBus (snd (submitFeedback sid fb p)) = eventBus p"
  "sid' \<noteq> sid \<Longrightarrow> contexts (snd (submitFeedback sid fb p)) sid' = contexts p sid'"
  by (simp_all add: submitFeedback_def Let_def split: prod.splits option.splits)

lemma submitFeedback_default:
  assumes bus: "eventBus p = defaultHandlers (config p)" and ctx: "contexts p sid = Some c"
  shows "submitFeedback sid fb p =
           (None, p\<lparr> contexts := (contexts p)(sid \<mapsto>
                        c\<lparr> history := history c
                             @ [mk_event FEEDBACK_COLLECTION (FeedbackData fb) (sessionId c) (userId c)] \<rparr>),
                      heap := heap p \<rparr>)"
  using ctx
  by (simp add: submitFeedback_def emit_def push_event_def default_bus [OF bus] mk_event_def
        feedbackHandler_def)

lemma process_flagged:
  assumes bus: "eventBus p = defaultHandlers (config p)"
    and en: "enableAntiPatternDetection (config p)"
    and ctx: "contexts p sid = Some c"
    and flag: "antiPatternDetected c \<noteq> None"
  shows "process input sid uid p =
           (Inr (c\<lparr> history := history c @ stage_events input sid uid (length (heap p)),
                    currentIntent := Some (length (heap p)),
                    antiPatternDetected :=
                      detection_flag (config p) c (stage_events input sid uid (length (heap p))) \<rparr>),
            p\<lparr> contexts := (contexts p)(sid \<mapsto>
                   c\<lparr> history := history c @ stage_events input sid uid (length (heap p)),
                      currentIntent := Some (length (heap p)),
                      antiPatternDetected :=
                        detection_flag (config p) c (stage_events input sid uid (length (heap p))) \<rparr>),
               heap := heap p @ [gate (config p) (classifyIntent input)] \<rparr>)"
    and "detection_flag (config p) c (stage_events input sid uid (length (heap p))) \<noteq> None"
proof -
  show f: "detection_flag (config p) c (stage_events input sid uid (length (heap p))) \<noteq> None"
    using flag by (simp add: detection_flag_def split: option.splits)
  have f': "detection_flag (config p) (wctx \<lparr> wctx = c, wheap = heap p \<rparr>)
              (stage_events input sid uid (length (wheap \<lparr> wctx = c, wheap = heap p \<rparr>))) \<noteq> None"
    using f by simp
  show "process input sid uid p =
           (Inr (c\<lparr> history := history c @ stage_events input sid uid (length (heap p)),
                    currentIntent := Some (length (heap p)),
                    antiPatternDetected :=
                      detection_flag (config p) c (stage_events input sid uid (length (heap p))) \<rparr>),
            p\<lparr> contexts := (contexts p)(sid \<mapsto>
                   c\<lparr> history := history c @ stage_events input sid uid (length (heap p)),
                      currentIntent := Some (length (heap p)),
                      antiPatternDetected :=
                        detection_flag (config p) c (stage_events input sid uid (length (heap p))) \<rparr>),
               heap := heap p @ [gate (config p) (classifyIntent input)] \<rparr>)"
    unfolding process_def Let_def session_context_def ctx option.case
      run_stages_default_early [OF bus en f']
    by simp
qed

lemma quiet_stage_events: "quiet (stage_events input sid uid r)"
  by (simp add: quiet_def stage_events_def mk_event_def)

lemma run_call_sticky:
  assumes bus: "eventBus p = defaultHandlers (config p)"
    and en: "enableAntiPatternDetection (config p)"
    and ctx: "contexts p sid = Some c"
    and flag: "antiPatternDetected c \<noteq> None"
  shows "\<exists>c1 new. contexts (run_call k p) sid = Some c1
           \<and> antiPatternDetected c1 \<noteq> None
           \<and> selectedStrategy c1 = selectedStrategy c
           \<and> executionResult c1 = executionResult c
           \<and> history c1 = history c @ new \<and> quiet new"
proof (cases k)
  case (Process input sid' uid)
  show ?thesis
  proof (cases "sid' = sid")
    case True
    with Process process_flagged [OF bus en ctx flag, of input uid] show ?thesis
      by (simp add: quiet_stage_events)
  next
    case False
    with Process ctx flag show ?thesis
      by (simp add: process_frame quiet_def)
  qed
next
  case (SubmitFeedback sid' fb)
  show ?thesis
  proof (cases "sid' = sid")
    case True
    with SubmitFeedback submitFeedback_default [OF bus ctx, of fb] flag show ?thesis
      by (simp add: quiet_def mk_event_def)
  next
    case False
    with SubmitFeedback ctx flag show ?thesis
      by (simp add: submitFeedback_frame quiet_def)
  qed
qed

lemma run_call_frame:
  "config (run_call k p) = config p" "eventBus (run_call k p) = eventBus p"
  by (cases k; simp add: process_frame submitFeedback_frame)+

lemma run_calls_sticky:
  assumes "eventBus p = defaultHandlers (config p)"
    and "enableAntiPatternDetection (config p)"
    and "contexts p sid = Some c"
    and "antiPatternDetected c \<noteq> None"
  shows "\<exists>c' new. contexts (run_calls ks p) sid = Some c'
           \<and> antiPatternDetected c' \<noteq> None
           \<and> selectedStrategy c' = selectedStrategy c
           \<and> executionResult c' = executionResult c
           \<and> history c' = history c @ new \<and> quiet new"
  using assms
proof (induction ks arbitrary: p c)
  case Nil
  then show ?case by (simp add: quiet_def)
next
  case (Cons k ks)
  from run_call_sticky [OF Cons.prems, of k]
  obtain c1 new1 where c1: "contexts (run_call k p) sid = Some c1"
    "antiPatternDetected c1 \<noteq> None" "selectedStrategy c1 = selectedStrategy c"
    "executionResult c1 = executionResult c" "history c1 = history c @ new1" "quiet new1"
    by blast
  have bus1: "eventBus (run_call k p) = defaultHandlers (config (run_call k p))"
    and en1: "enableAntiPatternDetection (config (run_call k p))"
    using Cons.prems by (simp_all add: run_call_frame)
  from Cons.IH [OF bus1 en1 c1(1) c1(2)]
  obtain c' new where c': "contexts (run_calls ks (run_call k p)) sid = Some c'"
    "antiPatternDetected c' \<noteq> None" "selectedStrategy c' = selectedStrategy c1"
    "executionResult c' = executionResult c1" "history c' = history c1 @ new" "quiet new"
    by blast
  have "quiet (new1 @ new)"
    using c1(6) c'(6) by (auto simp add: quiet_def)
  with c1 c' show ?case
    by auto
qed


text \<open>
  Claim C10. Take a pipeline with the default handlers and detection enabled, and a
  session whose context has \<open>antiPatternDetected\<close> set. Then every \<open>process\<close> call for
  that session returns the context right after the detection stage: the call appends the
  classification, gating and detection events and no other, the field is still set (the
  handler writes it only when the detector returns a finding, so with no new finding it
  keeps the old one), and \<open>selectedStrategy\<close> and \<open>executionResult\<close> are untouched.
  After any run of \<open>process\<close> and \<open>submitFeedback\<close> calls, on this or other sessions,
  the field is still set, the two results are still what they were, and no
  strategy-selection or execution event has been added to the session's history.
\<close>

theorem finding_stops_every_later_turn:
  assumes "eventBus p = defaultHandlers (config p)"
    and "enableAntiPatternDetection (config p)"
    and "contexts p sid = Some c"
    and "antiPatternDetected c \<noteq> None"
  shows "(\<exists>c' p'. process input sid uid p = (Inr c', p')
            \<and> contexts p' sid = Some c'
            \<and> history c' = history c @ stage_events input sid uid (length (heap p))
            \<and> antiPatternDetected c' \<noteq> None
            \<and> (detect_in (config p) (history c') = None
                 \<longrightarrow> antiPatternDetected c' = antiPatternDetected c)
            \<and> selectedStrategy c' = selectedStrategy c
            \<and> executionResult c' = executionResult c)
         \<and> (\<exists>c' new. contexts (run_calls ks p) sid = Some c'
            \<and> antiPatternDetected c' \<noteq> None
            \<and> selectedStrategy c' = selectedStrategy c
            \<and> executionResult c' = executionResult c
            \<and> history c' = history c @ new \<and> quiet new)"
proof
  from process_flagged [OF assms, of input uid]
  show "\<exists>c' p'. process input sid uid p = (Inr c', p')
            \<and> contexts p' sid = Some c'
            \<and> history c' = history c @ stage_events input sid uid (length (heap p))
            \<and> antiPatternDetected c' \<noteq> None
            \<and> (detect_in (config p) (history c') = None
                 \<longrightarrow> antiPatternDetected c' = antiPatternDetected c)
            \<and> selectedStrategy c' = selectedStrategy c
            \<and> executionResult c' = executionResult c"
    by (simp add: detection_flag_def)
next
  from run_calls_sticky [OF assms, of ks]
  show "\<exists>c' new. contexts (run_calls ks p) sid = Some c'
            \<and> antiPatternDetected c' \<noteq> None
            \<and> selectedStrategy c' = selectedStrategy c
            \<and> executionResult c' = executionResult c
            \<and> history c' = history c @ new \<and> quiet new" .
qed


text \<open>Witness for C10: with \<open>maxClarificationAttempts = 0\<close> the first turn (input
  \<open>hi\<close>) sets the finding; a later turn with a long question, a feedback and a turn
  on another session leave the session without a strategy or a result.\<close>

theorem finding_stops_every_later_turn_witness:
  "eventBus (snd (process ''hi'' ''s'' None
               (new_Pipeline (no_overrides\<lparr> p_maxClarificationAttempts := Some 0 \<rparr>))))
     = defaultHandlers (config (snd (process ''hi'' ''s'' None
               (new_Pipeline (no_overrides\<lparr> p_maxClarificationAttempts := Some 0 \<rparr>)))))
   \<and> enableAntiPatternDetection (config (snd (process ''hi'' ''s'' None
               (new_Pipeline (no_overrides\<lparr> p_maxClarificationAttempts := Some 0 \<rparr>)))))
   \<and> (\<exists>c. contexts (snd (process ''hi'' ''s'' None
               (new_Pipeline (no_overrides\<lparr> p_maxClarificationAttempts := Some 0 \<rparr>)))) ''s''
             = Some c
          \<and> antiPatternDetected c \<noteq> None)
   \<and> (\<exists>c'. contexts
               (run_calls [Process ''How does the pipeline work in detail?'' ''s'' None,
                           SubmitFeedback ''s'' \<lparr> rating = Some 5, explicit = None, implicit = None \<rparr>,
                           Process ''Create a new service'' ''t'' None]
                  (snd (process ''hi'' ''s'' None
                     (new_Pipeline (no_overrides\<lparr> p_maxClarificationAttempts := Some 0 \<rparr>)))))
               ''s'' = Some c'
          \<and> antiPatternDetected c' \<noteq> None
          \<and> selectedStrategy c' = None
          \<and> executionResult c' = None)"
proof -
  let ?P1 = "snd (process ''hi'' ''s'' None
               (new_Pipeline (no_overrides\<lparr> p_maxClarificationAttempts := Some 0 \<rparr>)))"
  have bus: "eventBus ?P1 = defaultHandlers (config ?P1)"
    by (simp add: process_frame new_Pipeline_def)
  have en: "enableAntiPatternDetection (config ?P1)"
    by (simp add: process_frame new_Pipeline_def merge_config_def no_overrides_def
          DEFAULT_CONFIG_def)
  have "map_option (\<lambda>c. (antiPatternDetected c \<noteq> None, selectedStrategy c, executionResult c))
          (contexts ?P1 ''s'') = Some (True, None, None)"
    by code_simp
  then obtain c where c: "contexts ?P1 ''s'' = Some c" "antiPatternDetected c \<noteq> None"
    "selectedStrategy c = None" "executionResult c = None"
    by (cases "contexts ?P1 ''s''") auto
  from finding_stops_every_later_turn [OF bus en c(1) c(2)] c bus en
  show ?thesis
    by metis
qed

subsection \<open>C6: the history is append-only and observers see the new event\<close>

lemma keeps_historyD:
  "keeps_history h \<Longrightarrow> h ev w = (r, w') \<Longrightarrow> history (wctx w') = history (wctx w)"
  by (metis keeps_history_def snd_conv)

lemma run_handlers_keeps_history:
  assumes "\<forall>h \<in> set hs. keeps_history h"
  shows "history (wctx (snd (run_handlers hs ev w))) = history (wctx w)"
  using assms
proof (induction hs arbitrary: w)
  case Nil
  then show ?case by simp
next
  case (Cons h hs)
  obtain r w' where hw: "h ev w = (r, w')" by (cases "h ev w")
  from Cons.prems have kh: "keeps_history h" and rest: "\<forall>g \<in> set hs. keeps_history g"
    by simp_all
  from keeps_historyD [OF kh hw] have same: "history (wctx w') = history (wctx w)" .
  show ?case
  proof (cases r)
    case None
    with hw Cons.IH [OF rest, of w'] same show ?thesis by simp
  next
    case (Some e)
    with hw same show ?thesis by simp
  qed
qed

lemma emit_appends:
  assumes "\<forall>st. \<forall>h \<in> set (eventBus p st). keeps_history h"
  shows "history (wctx (snd (emit p ev w))) = history (wctx w) @ [ev]"
  using assms run_handlers_keeps_history [of "eventBus p (stage ev)" ev "push_event ev w"]
  by (simp add: emit_def push_event_def)

lemma emit_appends':
  assumes "\<forall>st. \<forall>h \<in> set (eventBus p st). keeps_history h" and "emit p ev w = (r, w')"
  shows "history (wctx w') = history (wctx w) @ [ev]"
  using emit_appends [OF assms(1), of ev w] assms(2) by simp

lemma run_stages_appends:
  assumes k: "\<forall>st. \<forall>h \<in> set (eventBus p st). keeps_history h"
  shows "\<exists>new. history (wctx (snd (run_stages p input sid uid w0))) = history (wctx w0) @ new"
  unfolding run_stages_def
  by (auto simp add: emit_appends [OF k] split: prod.splits option.splits if_splits
        dest!: emit_appends' [OF k])


lemma default_handlers_keep_history:
  "h \<in> set (defaultHandlers cfg st) \<Longrightarrow> keeps_history h"
  by (cases st)
     (auto simp add: keeps_history_def classificationHandler_def gatingHandler_def
        strategyHandler_def executionHandler_def antiPatternHandler_def feedbackHandler_def
        split: option.splits prod.splits)

lemma run_handlers_append:
  "run_handlers (hs1 @ h # hs2) ev w =
     (case run_handlers hs1 ev w of
        (Some e, w') \<Rightarrow> (Some e, w')
      | (None, w1) \<Rightarrow>
          (case h ev w1 of
             (Some e, w') \<Rightarrow> (Some e, w')
           | (None, w') \<Rightarrow> run_handlers hs2 ev w'))"
  by (induction hs1 arbitrary: w) (auto split: prod.splits option.splits)

lemma run_handlers_keeps_history':
  assumes "\<forall>g \<in> set hs. keeps_history g" and "run_handlers hs ev w = (r, w')"
  shows "history (wctx w') = history (wctx w)"
  using run_handlers_keeps_history [OF assms(1), of ev w] assms(2) by simp

text \<open>
  Claim C6. \<open>emit\<close> appends the event to the history before it calls a handler. For an
  observer \<open>h\<close> registered for the stage of the event, after observers \<open>hs1\<close> that
  leave \<open>context.history\<close> alone and have returned, the result of \<open>emit\<close> is the result
  of calling \<open>h\<close> on a context whose history is the history before the \<open>emit\<close>
  followed by the event, and of the observers after \<open>h\<close> when \<open>h\<close> returns; for the
  first observer this holds whatever the observers do. With observers that leave
  \<open>context.history\<close> alone on every stage, as the default handlers do, the history
  when \<open>emit\<close> ends is the old history followed by the event, a \<open>process\<close> call turns
  the history of its session into that history followed by the events of the call,
  whether it returns or throws, and a \<open>submitFeedback\<close> call on an existing session
  appends the feedback event. Neither call touches the context of another session.
\<close>

theorem history_is_append_only:
  "(\<forall>hs1 h hs2 w1.
      eventBus p (stage ev) = hs1 @ h # hs2
      \<and> (\<forall>g \<in> set hs1. keeps_history g)
      \<and> run_handlers hs1 ev (push_event ev w) = (None, w1)
      \<longrightarrow> history (wctx w1) = history (wctx w) @ [ev]
          \<and> emit p ev w =
              (case h ev w1 of
                 (Some e, w') \<Rightarrow> (Some e, w')
               | (None, w') \<Rightarrow> run_handlers hs2 ev w'))
   \<and> (\<forall>h hs.
        eventBus p (stage ev) = h # hs
        \<longrightarrow> emit p ev w =
              (case h ev (w\<lparr> wctx := (wctx w)\<lparr> history := history (wctx w) @ [ev] \<rparr> \<rparr>) of
                 (Some e, w') \<Rightarrow> (Some e, w')
               | (None, w') \<Rightarrow> run_handlers hs ev w'))
   \<and> (eventBus p (stage ev) = []
        \<longrightarrow> emit p ev w = (None, w\<lparr> wctx := (wctx w)\<lparr> history := history (wctx w) @ [ev] \<rparr> \<rparr>))
   \<and> ((\<forall>st. \<forall>h \<in> set (eventBus p st). keeps_history h)
        \<longrightarrow> history (wctx (snd (emit p ev w))) = history (wctx w) @ [ev]
            \<and> (\<exists>c' new. contexts (snd (process input sid uid p)) sid = Some c'
                   \<and> history c' = history (session_context p sid uid) @ new)
            \<and> (\<forall>c. contexts p sid = Some c \<longrightarrow>
                  (\<exists>c'. contexts (snd (submitFeedback sid fb p)) sid = Some c'
                     \<and> history c' = history c
                          @ [mk_event FEEDBACK_COLLECTION (FeedbackData fb)
                               (sessionId c) (userId c)])))
   \<and> (\<forall>sid'. sid' \<noteq> sid \<longrightarrow>
          contexts (snd (process input sid uid p)) sid' = contexts p sid'
          \<and> contexts (snd (submitFeedback sid fb p)) sid' = contexts p sid')"
proof (intro conjI)
  show "\<forall>hs1 h hs2 w1.
      eventBus p (stage ev) = hs1 @ h # hs2
      \<and> (\<forall>g \<in> set hs1. keeps_history g)
      \<and> run_handlers hs1 ev (push_event ev w) = (None, w1)
      \<longrightarrow> history (wctx w1) = history (wctx w) @ [ev]
          \<and> emit p ev w =
              (case h ev w1 of
                 (Some e, w') \<Rightarrow> (Some e, w')
               | (None, w') \<Rightarrow> run_handlers hs2 ev w')"
  proof (intro allI impI, elim conjE)
    fix hs1 h hs2 w1
    assume bus: "eventBus p (stage ev) = hs1 @ h # hs2"
      and k: "\<forall>g \<in> set hs1. keeps_history g"
      and run: "run_handlers hs1 ev (push_event ev w) = (None, w1)"
    from run_handlers_keeps_history' [OF k run]
    have "history (wctx w1) = history (wctx w) @ [ev]"
      by (simp add: push_event_def)
    moreover have "emit p ev w =
              (case h ev w1 of
                 (Some e, w') \<Rightarrow> (Some e, w')
               | (None, w') \<Rightarrow> run_handlers hs2 ev w')"
      by (simp add: emit_def bus run_handlers_append run)
    ultimately show "history (wctx w1) = history (wctx w) @ [ev]
          \<and> emit p ev w =
              (case h ev w1 of
                 (Some e, w') \<Rightarrow> (Some e, w')
               | (None, w') \<Rightarrow> run_handlers hs2 ev w')"
      by simp
  qed
next
  show "\<forall>h hs.
        eventBus p (stage ev) = h # hs
        \<longrightarrow> emit p ev w =
              (case h ev (w\<lparr> wctx := (wctx w)\<lparr> history := history (wctx w) @ [ev] \<rparr> \<rparr>) of
                 (Some e, w') \<Rightarrow> (Some e, w')
               | (None, w') \<Rightarrow> run_handlers hs ev w')"
    by (simp add: emit_def push_event_def)
next
  show "eventBus p (stage ev) = []
        \<longrightarrow> emit p ev w = (None, w\<lparr> wctx := (wctx w)\<lparr> history := history (wctx w) @ [ev] \<rparr> \<rparr>)"
    by (simp add: emit_def push_event_def)
next
  show "(\<forall>st. \<forall>h \<in> set (eventBus p st). keeps_history h)
        \<longrightarrow> history (wctx (snd (emit p ev w))) = history (wctx w) @ [ev]
            \<and> (\<exists>c' new. contexts (snd (process input sid uid p)) sid = Some c'
                   \<and> history c' = history (session_context p sid uid) @ new)
            \<and> (\<forall>c. contexts p sid = Some c \<longrightarrow>
                  (\<exists>c'. contexts (snd (submitFeedback sid fb p)) sid = Some c'
                     \<and> history c' = history c
                          @ [mk_event FEEDBACK_COLLECTION (FeedbackData fb)
                               (sessionId c) (userId c)]))"
  proof (intro impI conjI)
    assume k: "\<forall>st. \<forall>h \<in> set (eventBus p st). keeps_history h"
    show "history (wctx (snd (emit p ev w))) = history (wctx w) @ [ev]"
      by (rule emit_appends [OF k])
    from run_stages_appends [OF k, of input sid uid
           "\<lparr> wctx = session_context p sid uid, wheap = heap p \<rparr>"]
    show "\<exists>c' new. contexts (snd (process input sid uid p)) sid = Some c'
                  \<and> history c' = history (session_context p sid uid) @ new"
      by (auto simp add: process_def Let_def split: prod.splits)
    show "\<forall>c. contexts p sid = Some c \<longrightarrow>
                 (\<exists>c'. contexts (snd (submitFeedback sid fb p)) sid = Some c'
                    \<and> history c' = history c
                         @ [mk_event FEEDBACK_COLLECTION (FeedbackData fb)
                              (sessionId c) (userId c)])"
      by (auto simp add: submitFeedback_def Let_def split: prod.splits
            dest!: emit_appends' [OF k])
  qed
next
  show "\<forall>sid'. sid' \<noteq> sid \<longrightarrow>
               contexts (snd (process input sid uid p)) sid' = contexts p sid'
               \<and> contexts (snd (submitFeedback sid fb p)) sid' = contexts p sid'"
    by (simp add: process_frame submitFeedback_frame)
qed

text \<open>Witness for C6: the default pipeline with the observer \<open>sees_event\<close> registered
  after the default classification handler, on a session that already has a feedback
  event in its history. The observer finds the classification event as the last entry,
  after the earlier one, and does not throw.\<close>

theorem history_is_append_only_witness:
  "fst (emit (on INTENT_CLASSIFICATION sees_event (new_Pipeline no_overrides))
          (mk_event INTENT_CLASSIFICATION (InputData ''Test query'') ''s'' None)
          \<lparr> wctx = (new_context ''s'' None)
                \<lparr> history := [mk_event FEEDBACK_COLLECTION
                                 (FeedbackData \<lparr> rating = Some 5, explicit = None, implicit = None \<rparr>)
                                 ''s'' None] \<rparr>,
            wheap = [] \<rparr>) = None
   \<and> history (wctx (snd (emit (on INTENT_CLASSIFICATION sees_event (new_Pipeline no_overrides))
          (mk_event INTENT_CLASSIFICATION (InputData ''Test query'') ''s'' None)
          \<lparr> wctx = (new_context ''s'' None)
                \<lparr> history := [mk_event FEEDBACK_COLLECTION
                                 (FeedbackData \<lparr> rating = Some 5, explicit = None, implicit = None \<rparr>)
                                 ''s'' None] \<rparr>,
            wheap = [] \<rparr>)))
       = [mk_event FEEDBACK_COLLECTION
            (FeedbackData \<lparr> rating = Some 5, explicit = None, implicit = None \<rparr>) ''s'' None,
          mk_event INTENT_CLASSIFICATION (InputData ''Test query'') ''s'' None]"
proof -
  let ?P = "on INTENT_CLASSIFICATION sees_event (new_Pipeline no_overrides)"
  let ?ev = "mk_event INTENT_CLASSIFICATION (InputData ''Test query'') ''s'' None"
  let ?fb = "mk_event FEEDBACK_COLLECTION
               (FeedbackData \<lparr> rating = Some 5, explicit = None, implicit = None \<rparr>) ''s'' None"
  let ?w = "\<lparr> wctx = (new_context ''s'' None)\<lparr> history := [?fb] \<rparr>, wheap = [] \<rparr>"
  let ?w1 = "\<lparr> wctx = (new_context ''s'' None)\<lparr> history := [?fb, ?ev], currentIntent := Some 0 \<rparr>,
              wheap = [classifyIntent ''Test query''] \<rparr>"
  have bus: "eventBus ?P (stage ?ev) = [classificationHandler] @ sees_event # []"
    by (simp add: on_def new_Pipeline_def mk_event_def)
  have k: "\<forall>g \<in> set [classificationHandler]. keeps_history g"
    using default_handlers_keep_history [of classificationHandler DEFAULT_CONFIG INTENT_CLASSIFICATION]
    by simp
  have run: "run_handlers [classificationHandler] ?ev (push_event ?ev ?w) = (None, ?w1)"
    by (simp add: classificationHandler_def push_event_def mk_event_def new_context_def)
  from history_is_append_only [of ?P ?ev ?w] bus k run
  have "emit ?P ?ev ?w =
          (case sees_event ?ev ?w1 of
             (Some e, w') \<Rightarrow> (Some e, w')
           | (None, w') \<Rightarrow> run_handlers [] ?ev w')"
    by blast
  then show ?thesis
    by (simp add: sees_event_def new_context_def)
qed

subsection \<open>C1: the order of the stages and the early return\<close>

lemma run_stages_split:
  "run_stages p input sid uid w0 =
     (case through_detection p input sid uid w0 of
        (Some e, w) \<Rightarrow> (Some e, w)
      | (None, w3) \<Rightarrow>
          if enableAntiPatternDetection (config p) \<and> antiPatternDetected (wctx w3) \<noteq> None
          then (None, w3)
          else after_detection p sid uid w3)"
proof -
  obtain r1 w1 where e1:
    "emit p (mk_event INTENT_CLASSIFICATION (InputData input) sid uid) w0 = (r1, w1)"
    by (cases "emit p (mk_event INTENT_CLASSIFICATION (InputData input) sid uid) w0")
  obtain r2 w2 where e2:
    "emit p (mk_event CONFIDENCE_GATING (IntentData (currentIntent (wctx w1))) sid uid) w1
       = (r2, w2)"
    by (cases "emit p (mk_event CONFIDENCE_GATING (IntentData (currentIntent (wctx w1)))
                 sid uid) w1")
  obtain r3 w3 where e3:
    "emit p (mk_event ANTI_PATTERN_DETECTION HistoryData sid uid) w2 = (r3, w3)"
    by (cases "emit p (mk_event ANTI_PATTERN_DETECTION HistoryData sid uid) w2")
  show ?thesis
    by (cases r1; cases r2; cases r3)
       (simp_all add: run_stages_def through_detection_def after_detection_def e1 e2 e3)
qed

lemma process_throws:
  assumes "through_detection p input sid uid
             \<lparr> wctx = session_context p sid uid, wheap = heap p \<rparr> = (Some e, w3)"
  shows "process input sid uid p =
           (Inl e, p\<lparr> contexts := (contexts p)(sid \<mapsto> wctx w3), heap := wheap w3 \<rparr>)"
  by (simp add: process_def run_stages_split assms Let_def)

lemma process_returns_early:
  assumes "through_detection p input sid uid
             \<lparr> wctx = session_context p sid uid, wheap = heap p \<rparr> = (None, w3)"
    and "enableAntiPatternDetection (config p)"
    and "antiPatternDetected (wctx w3) \<noteq> None"
  shows "process input sid uid p =
           (Inr (wctx w3), p\<lparr> contexts := (contexts p)(sid \<mapsto> wctx w3), heap := wheap w3 \<rparr>)"
  using assms(2,3) by (simp add: process_def run_stages_split assms(1) Let_def)

lemma process_runs_on:
  assumes "through_detection p input sid uid
             \<lparr> wctx = session_context p sid uid, wheap = heap p \<rparr> = (None, w3)"
    and "\<not> (enableAntiPatternDetection (config p) \<and> antiPatternDetected (wctx w3) \<noteq> None)"
    and "after_detection p sid uid w3 = (r, w5)"
  shows "process input sid uid p =
           ((case r of None \<Rightarrow> Inr (wctx w5) | Some e \<Rightarrow> Inl e),
            p\<lparr> contexts := (contexts p)(sid \<mapsto> wctx w5), heap := wheap w5 \<rparr>)"
  using assms(2) by (auto simp add: process_def run_stages_split assms(1,3) Let_def)

lemma stage_mk_event [simp]: "stage (mk_event st d sid uid) = st"
  by (simp add: mk_event_def)

lemma through_detection_history:
  assumes k: "\<forall>st. \<forall>h \<in> set (eventBus p st). keeps_history h"
  shows "\<exists>new. history (wctx (snd (through_detection p input sid uid w0)))
                 = history (wctx w0) @ new
           \<and> new \<noteq> []
           \<and> map stage new = take (length new) (stage_order (config p))
           \<and> length new \<le> (if enableAntiPatternDetection (config p) then 3 else 2)
           \<and> (fst (through_detection p input sid uid w0) = None
                \<longrightarrow> length new = (if enableAntiPatternDetection (config p) then 3 else 2))"
  unfolding through_detection_def
  by (auto simp add: emit_appends [OF k] stage_order_def
        split: prod.splits option.splits dest!: emit_appends' [OF k])

lemma after_detection_history:
  assumes k: "\<forall>st. \<forall>h \<in> set (eventBus p st). keeps_history h"
  shows "\<exists>new. history (wctx (snd (after_detection p sid uid w3))) = history (wctx w3) @ new
           \<and> new \<noteq> []
           \<and> map stage new = take (length new) [STRATEGY_SELECTION, EXECUTION]
           \<and> (fst (after_detection p sid uid w3) = None \<longrightarrow> length new = 2)"
  unfolding after_detection_def
  by (auto simp add: emit_appends [OF k] split: prod.splits option.splits
        dest!: emit_appends' [OF k])

lemma run_handlers_keeps_results:
  assumes "\<forall>h \<in> set hs. keeps_results h"
  shows "selectedStrategy (wctx (snd (run_handlers hs ev w))) = selectedStrategy (wctx w)
         \<and> executionResult (wctx (snd (run_handlers hs ev w))) = executionResult (wctx w)"
  using assms
proof (induction hs arbitrary: w)
  case Nil
  then show ?case by simp
next
  case (Cons h hs)
  obtain r w1 where hw: "h ev w = (r, w1)" by (cases "h ev w")
  from Cons.prems have kh: "keeps_results h" and rest: "\<forall>g \<in> set hs. keeps_results g"
    by simp_all
  from kh hw have same: "selectedStrategy (wctx w1) = selectedStrategy (wctx w)"
    "executionResult (wctx w1) = executionResult (wctx w)"
    by (metis keeps_results_def snd_conv)+
  show ?case
  proof (cases r)
    case None
    with hw Cons.IH [OF rest, of w1] same show ?thesis by simp
  next
    case (Some e)
    with hw same show ?thesis by simp
  qed
qed

lemma emit_keeps_results:
  assumes "\<forall>h \<in> set (eventBus p st). keeps_results h"
    and "emit p (mk_event st d sid uid) w = (r, w')"
  shows "selectedStrategy (wctx w') = selectedStrategy (wctx w)
         \<and> executionResult (wctx w') = executionResult (wctx w)"
  using run_handlers_keeps_results
          [of "eventBus p st" "mk_event st d sid uid" "push_event (mk_event st d sid uid) w"]
        assms
  by (simp add: emit_def push_event_def)

lemma through_detection_keeps_results:
  assumes ic: "\<forall>h \<in> set (eventBus p INTENT_CLASSIFICATION). keeps_results h"
    and cg: "\<forall>h \<in> set (eventBus p CONFIDENCE_GATING). keeps_results h"
    and ap: "\<forall>h \<in> set (eventBus p ANTI_PATTERN_DETECTION). keeps_results h"
  shows "selectedStrategy (wctx (snd (through_detection p input sid uid w0)))
           = selectedStrategy (wctx w0)
         \<and> executionResult (wctx (snd (through_detection p input sid uid w0)))
           = executionResult (wctx w0)"
proof -
  obtain r1 w1 where e1:
    "emit p (mk_event INTENT_CLASSIFICATION (InputData input) sid uid) w0 = (r1, w1)"
    by (cases "emit p (mk_event INTENT_CLASSIFICATION (InputData input) sid uid) w0")
  obtain r2 w2 where e2:
    "emit p (mk_event CONFIDENCE_GATING (IntentData (currentIntent (wctx w1))) sid uid) w1
       = (r2, w2)"
    by (cases "emit p (mk_event CONFIDENCE_GATING (IntentData (currentIntent (wctx w1)))
                 sid uid) w1")
  obtain r3 w3 where e3:
    "emit p (mk_event ANTI_PATTERN_DETECTION HistoryData sid uid) w2 = (r3, w3)"
    by (cases "emit p (mk_event ANTI_PATTERN_DETECTION HistoryData sid uid) w2")
  note k1 = emit_keeps_results [OF ic e1]
  note k2 = emit_keeps_results [OF cg e2]
  note k3 = emit_keeps_results [OF ap e3]
  show ?thesis
    using k1 k2 k3
    by (cases r1; cases r2) (simp_all add: through_detection_def e1 e2 e3)
qed

lemma default_handlers_keep_results:
  "st \<in> {INTENT_CLASSIFICATION, CONFIDENCE_GATING, ANTI_PATTERN_DETECTION}
     \<Longrightarrow> h \<in> set (defaultHandlers cfg st) \<Longrightarrow> keeps_results h"
  by (auto simp add: keeps_results_def classificationHandler_def gatingHandler_def
        antiPatternHandler_def split: option.splits prod.splits)

lemma turn_history:
  assumes k: "\<forall>st. \<forall>h \<in> set (eventBus p st). keeps_history h"
  shows "\<exists>c' new.
           contexts (snd (process input sid uid p)) sid = Some c'
           \<and> history c' = history (session_context p sid uid) @ new
           \<and> new \<noteq> []
           \<and> map stage new = take (length new) (stage_order (config p))
           \<and> (\<forall>ctx. fst (process input sid uid p) = Inr ctx \<longrightarrow>
                  ctx = c'
                  \<and> map stage new
                      = (if enableAntiPatternDetection (config p)
                            \<and> antiPatternDetected
                                 (wctx (snd (through_detection p input sid uid
                                    \<lparr> wctx = session_context p sid uid, wheap = heap p \<rparr>)))
                               \<noteq> None
                         then [INTENT_CLASSIFICATION, CONFIDENCE_GATING, ANTI_PATTERN_DETECTION]
                         else stage_order (config p)))"
proof -
  let ?w0 = "\<lparr> wctx = session_context p sid uid, wheap = heap p \<rparr>"
  let ?first = "if enableAntiPatternDetection (config p)
                then [INTENT_CLASSIFICATION, CONFIDENCE_GATING, ANTI_PATTERN_DETECTION]
                else [INTENT_CLASSIFICATION, CONFIDENCE_GATING]"
  have order: "stage_order (config p) = ?first @ [STRATEGY_SELECTION, EXECUTION]"
    by (simp add: stage_order_def)
  obtain r w3 where td: "through_detection p input sid uid ?w0 = (r, w3)"
    by (cases "through_detection p input sid uid ?w0")
  from through_detection_history [OF k, of input sid uid ?w0] td
  obtain new1 where n1: "history (wctx w3) = history (session_context p sid uid) @ new1"
    "new1 \<noteq> []" "map stage new1 = take (length new1) (stage_order (config p))"
    "r = None \<longrightarrow> length new1 = (if enableAntiPatternDetection (config p) then 3 else 2)"
    by auto
  show ?thesis
  proof (cases r)
    case (Some e)
    with process_throws [of p input sid uid e w3] td n1 show ?thesis
      by simp
  next
    case None
    with n1 have len1: "length new1 = length ?first" by simp
    with n1(3) have st1: "map stage new1 = ?first"
      by (simp add: order)
    show ?thesis
    proof (cases "enableAntiPatternDetection (config p)
                  \<and> antiPatternDetected (wctx w3) \<noteq> None")
      case True
      with process_returns_early [of p input sid uid w3] td None n1 st1 show ?thesis
        by simp
    next
      case False
      obtain r' w5 where ad: "after_detection p sid uid w3 = (r', w5)"
        by (cases "after_detection p sid uid w3")
      from after_detection_history [OF k, of sid uid w3] ad
      obtain new2 where n2: "history (wctx w5) = history (wctx w3) @ new2" "new2 \<noteq> []"
        "map stage new2 = take (length new2) [STRATEGY_SELECTION, EXECUTION]"
        "r' = None \<longrightarrow> length new2 = 2"
        by auto
      have st: "map stage (new1 @ new2) = take (length (new1 @ new2)) (stage_order (config p))"
        using st1 n2(3) len1 by (simp add: order)
      have full: "r' = None \<longrightarrow> map stage (new1 @ new2) = stage_order (config p)"
        using st1 n2(3,4) by (simp add: order)
      from process_runs_on [of p input sid uid w3 r' w5] td None False ad
      have pr: "process input sid uid p =
                  ((case r' of None \<Rightarrow> Inr (wctx w5) | Some e \<Rightarrow> Inl e),
                   p\<lparr> contexts := (contexts p)(sid \<mapsto> wctx w5), heap := wheap w5 \<rparr>)"
        by simp
      have "contexts (snd (process input sid uid p)) sid = Some (wctx w5)
            \<and> history (wctx w5) = history (session_context p sid uid) @ (new1 @ new2)
            \<and> new1 @ new2 \<noteq> []
            \<and> map stage (new1 @ new2) = take (length (new1 @ new2)) (stage_order (config p))
            \<and> (\<forall>ctx. fst (process input sid uid p) = Inr ctx \<longrightarrow>
                  ctx = wctx w5
                  \<and> map stage (new1 @ new2)
                      = (if enableAntiPatternDetection (config p)
                            \<and> antiPatternDetected (wctx (snd (through_detection p input sid uid ?w0)))
                               \<noteq> None
                         then [INTENT_CLASSIFICATION, CONFIDENCE_GATING, ANTI_PATTERN_DETECTION]
                         else stage_order (config p)))"
        using pr n1(1,2) n2(1) st full False td
        by (cases r') auto
      then show ?thesis by blast
    qed
  qed
qed

text \<open>
  Claim C1. For every pipeline, whatever handlers are registered, a \<open>process\<close> call
  runs the stages up to the detection stage (\<open>through_detection\<close>: classification,
  gating, and detection only when \<open>enableAntiPatternDetection\<close> is true). If one of
  them throws, the call throws. If \<open>context.antiPatternDetected\<close> is set when the
  detection stage ends, whoever set it, the call returns the context as that stage left
  it; otherwise strategy selection and execution run on it (\<open>after_detection\<close>) and the
  call returns or throws as they do. With handlers that leave \<open>context.history\<close>
  alone, the events that the call appends to the history are a beginning of the fixed
  order of the stages (never empty), all of it when the call returns without the early
  return, and classification, gating and detection when it returns early. With handlers
  of the first three stages that leave \<open>selectedStrategy\<close> and \<open>executionResult\<close>
  alone, a call that returns early returns them as they were before the call. With the
  default handlers alone the call always returns, the field at the end of the detection
  stage is the finding of the detector or else the value from an earlier turn, and a
  call that does not return early sets the strategy selected for the gated intent and
  the result of executing it.
\<close>

theorem process_stage_order:
  "(let c0 = session_context p sid uid;
        td = through_detection p input sid uid \<lparr> wctx = c0, wheap = heap p \<rparr>;
        ad = after_detection p sid uid (snd td);
        flagged = (enableAntiPatternDetection (config p)
                   \<and> antiPatternDetected (wctx (snd td)) \<noteq> None);
        res = fst (process input sid uid p);
        p' = snd (process input sid uid p)
    in (fst td = None \<and> flagged \<longrightarrow>
          res = Inr (wctx (snd td))
          \<and> contexts p' sid = Some (wctx (snd td)) \<and> heap p' = wheap (snd td))
       \<and> (fst td = None \<and> \<not> flagged \<longrightarrow>
            res = (case fst ad of None \<Rightarrow> Inr (wctx (snd ad)) | Some e \<Rightarrow> Inl e)
            \<and> contexts p' sid = Some (wctx (snd ad)) \<and> heap p' = wheap (snd ad))
       \<and> (\<forall>e. fst td = Some e \<longrightarrow>
            res = Inl e
            \<and> contexts p' sid = Some (wctx (snd td)) \<and> heap p' = wheap (snd td))
       \<and> ((\<forall>st. \<forall>h \<in> set (eventBus p st). keeps_history h) \<longrightarrow>
            (\<exists>c' new.
               contexts p' sid = Some c'
               \<and> history c' = history c0 @ new
               \<and> new \<noteq> []
               \<and> map stage new = take (length new) (stage_order (config p))
               \<and> (\<forall>ctx. res = Inr ctx \<longrightarrow>
                      ctx = c'
                      \<and> map stage new
                          = (if flagged
                             then [INTENT_CLASSIFICATION, CONFIDENCE_GATING,
                                   ANTI_PATTERN_DETECTION]
                             else stage_order (config p)))))
       \<and> ((\<forall>h \<in> set (eventBus p INTENT_CLASSIFICATION). keeps_results h)
            \<and> (\<forall>h \<in> set (eventBus p CONFIDENCE_GATING). keeps_results h)
            \<and> (\<forall>h \<in> set (eventBus p ANTI_PATTERN_DETECTION). keeps_results h)
            \<and> fst td = None \<and> flagged \<longrightarrow>
            (\<exists>ctx. res = Inr ctx
               \<and> selectedStrategy ctx = selectedStrategy c0
               \<and> executionResult ctx = executionResult c0))
       \<and> (eventBus p = defaultHandlers (config p) \<longrightarrow>
            (\<exists>ctx' p1. process input sid uid p = (Inr ctx', p1)
               \<and> contexts p1 sid = Some ctx'
               \<and> (let early = stage_events input sid uid (length (heap p));
                       late = late_events (config p) input sid uid (length (heap p)) c0;
                       flag = detection_flag (config p) c0 early
                   in map stage early
                        = [INTENT_CLASSIFICATION, CONFIDENCE_GATING, ANTI_PATTERN_DETECTION]
                      \<and> map stage late = [STRATEGY_SELECTION, EXECUTION]
                      \<and> (if enableAntiPatternDetection (config p)
                          then antiPatternDetected ctx' = flag
                               \<and> (if flag \<noteq> None
                                   then history ctx' = history c0 @ early
                                        \<and> selectedStrategy ctx' = selectedStrategy c0
                                        \<and> executionResult ctx' = executionResult c0
                                   else history ctx' = history c0 @ early @ late
                                        \<and> selectedStrategy ctx'
                                            = Some (selectStrategy
                                                      (gate (config p) (classifyIntent input)) c0)
                                        \<and> executionResult ctx'
                                            = Some (execute
                                                (gate (config p) (classifyIntent input))
                                                (selectStrategy
                                                   (gate (config p) (classifyIntent input)) c0)))
                          else history ctx' = history c0 @ take 2 early @ late
                               \<and> selectedStrategy ctx'
                                   = Some (selectStrategy
                                             (gate (config p) (classifyIntent input)) c0)
                               \<and> executionResult ctx'
                                   = Some (execute
                                       (gate (config p) (classifyIntent input))
                                       (selectStrategy
                                          (gate (config p) (classifyIntent input)) c0)))))))"
proof -
  let ?w0 = "\<lparr> wctx = session_context p sid uid, wheap = heap p \<rparr>"
  obtain r w3 where td: "through_detection p input sid uid ?w0 = (r, w3)"
    by (cases "through_detection p input sid uid ?w0")
  obtain r' w5 where ad: "after_detection p sid uid w3 = (r', w5)"
    by (cases "after_detection p sid uid w3")
  have early: "r = None \<and> enableAntiPatternDetection (config p)
                 \<and> antiPatternDetected (wctx w3) \<noteq> None \<longrightarrow>
               process input sid uid p =
                 (Inr (wctx w3),
                  p\<lparr> contexts := (contexts p)(sid \<mapsto> wctx w3), heap := wheap w3 \<rparr>)"
    using process_returns_early [of p input sid uid w3] td by auto
  have late: "r = None \<and> \<not> (enableAntiPatternDetection (config p)
                 \<and> antiPatternDetected (wctx w3) \<noteq> None) \<longrightarrow>
               process input sid uid p =
                 ((case r' of None \<Rightarrow> Inr (wctx w5) | Some e \<Rightarrow> Inl e),
                  p\<lparr> contexts := (contexts p)(sid \<mapsto> wctx w5), heap := wheap w5 \<rparr>)"
    using process_runs_on [of p input sid uid w3 r' w5] td ad by auto
  have throw: "\<forall>e. r = Some e \<longrightarrow>
               process input sid uid p =
                 (Inl e, p\<lparr> contexts := (contexts p)(sid \<mapsto> wctx w3), heap := wheap w3 \<rparr>)"
    using process_throws [of p input sid uid _ w3] td by auto
  have hist: "(\<forall>st. \<forall>h \<in> set (eventBus p st). keeps_history h) \<longrightarrow>
            (\<exists>c' new.
               contexts (snd (process input sid uid p)) sid = Some c'
               \<and> history c' = history (session_context p sid uid) @ new
               \<and> new \<noteq> []
               \<and> map stage new = take (length new) (stage_order (config p))
               \<and> (\<forall>ctx. fst (process input sid uid p) = Inr ctx \<longrightarrow>
                      ctx = c'
                      \<and> map stage new
                          = (if enableAntiPatternDetection (config p)
                                \<and> antiPatternDetected (wctx w3) \<noteq> None
                             then [INTENT_CLASSIFICATION, CONFIDENCE_GATING,
                                   ANTI_PATTERN_DETECTION]
                             else stage_order (config p))))"
    using turn_history [of p input sid uid] td by auto
  have res: "(\<forall>h \<in> set (eventBus p INTENT_CLASSIFICATION). keeps_results h)
            \<and> (\<forall>h \<in> set (eventBus p CONFIDENCE_GATING). keeps_results h)
            \<and> (\<forall>h \<in> set (eventBus p ANTI_PATTERN_DETECTION). keeps_results h) \<longrightarrow>
            selectedStrategy (wctx w3) = selectedStrategy (session_context p sid uid)
            \<and> executionResult (wctx w3) = executionResult (session_context p sid uid)"
    using through_detection_keeps_results [of p input sid uid ?w0] td by auto
  note dflt = process_default_turn [of p input sid uid]
  show ?thesis
    unfolding Let_def td ad fst_conv snd_conv
    using early late throw hist res dflt
    by (auto simp add: Let_def)
qed

text \<open>Witness for C1: the default pipeline with one more observer, registered with
  \<open>on\<close> for the gating stage, that sets \<open>antiPatternDetected\<close> to a context-drift
  finding. On the first turn (input \<open>How does X work?\<close>) the default detector finds
  nothing, the field is set when the detection stage ends, and the call returns there:
  three events in the history, no strategy and no result.\<close>

theorem process_stage_order_witness:
  "length (eventBus
      (on CONFIDENCE_GATING
         (raises_finding \<lparr> pattern_type = CONTEXT_DRIFT, severity = 1 / 2, evidence = [],
                            recommendedPivot = ''Restate the goal'' \<rparr>)
         (new_Pipeline no_overrides)) CONFIDENCE_GATING) = 2
   \<and> detect_in DEFAULT_CONFIG (stage_events ''How does X work?'' ''s'' None 0) = None
   \<and> (case fst (process ''How does X work?'' ''s'' None
         (on CONFIDENCE_GATING
            (raises_finding \<lparr> pattern_type = CONTEXT_DRIFT, severity = 1 / 2, evidence = [],
                               recommendedPivot = ''Restate the goal'' \<rparr>)
            (new_Pipeline no_overrides))) of
         Inl e \<Rightarrow> False
       | Inr ctx \<Rightarrow>
           map stage (history ctx)
             = [INTENT_CLASSIFICATION, CONFIDENCE_GATING, ANTI_PATTERN_DETECTION]
           \<and> map_option pattern_type (antiPatternDetected ctx) = Some CONTEXT_DRIFT
           \<and> selectedStrategy ctx = None
           \<and> executionResult ctx = None)"
proof -
  let ?a = "\<lparr> pattern_type = CONTEXT_DRIFT, severity = 1 / 2, evidence = [],
              recommendedPivot = ''Restate the goal'' \<rparr>"
  let ?P = "on CONFIDENCE_GATING (raises_finding ?a) (new_Pipeline no_overrides)"
  let ?td = "through_detection ?P ''How does X work?'' ''s'' None
               \<lparr> wctx = session_context ?P ''s'' None, wheap = heap ?P \<rparr>"
  have two: "length (eventBus ?P CONFIDENCE_GATING) = 2"
    by (simp add: on_def new_Pipeline_def)
  have quiet_detector:
    "detect_in DEFAULT_CONFIG (stage_events ''How does X work?'' ''s'' None 0) = None"
    by (simp add: detect_in_def clarificationCount_def short_input_def stage_events_def
          mk_event_def recentEvents_def DEFAULT_CONFIG_def)
  have en: "enableAntiPatternDetection (config ?P)"
    by (simp add: on_def new_Pipeline_def merge_config_def no_overrides_def DEFAULT_CONFIG_def)
  have c0: "session_context ?P ''s'' None = new_context ''s'' None"
    by (simp add: session_context_def on_def new_Pipeline_def)
  have td: "fst ?td = None"
    "map_option pattern_type (antiPatternDetected (wctx (snd ?td))) = Some CONTEXT_DRIFT"
    by code_simp+
  have kh: "\<forall>st. \<forall>h \<in> set (eventBus ?P st). keeps_history h"
  proof (intro allI ballI)
    fix st h
    assume "h \<in> set (eventBus ?P st)"
    then have "h \<in> set (defaultHandlers (merge_config DEFAULT_CONFIG no_overrides) st)
               \<or> h = raises_finding ?a"
      by (auto simp add: on_def new_Pipeline_def split: if_splits)
    then show "keeps_history h"
    proof
      assume "h \<in> set (defaultHandlers (merge_config DEFAULT_CONFIG no_overrides) st)"
      then show ?thesis by (rule default_handlers_keep_history)
    next
      assume "h = raises_finding ?a"
      then show ?thesis by (simp add: keeps_history_def raises_finding_def)
    qed
  qed
  have kr: "\<forall>h \<in> set (eventBus ?P st). keeps_results h"
    if st: "st \<in> {INTENT_CLASSIFICATION, CONFIDENCE_GATING, ANTI_PATTERN_DETECTION}" for st
  proof
    fix h
    assume h: "h \<in> set (eventBus ?P st)"
    from h have "h \<in> set (defaultHandlers (merge_config DEFAULT_CONFIG no_overrides) st)
               \<or> h = raises_finding ?a"
      by (auto simp add: on_def new_Pipeline_def split: if_splits)
    then show "keeps_results h"
    proof
      assume "h \<in> set (defaultHandlers (merge_config DEFAULT_CONFIG no_overrides) st)"
      with st show ?thesis by (rule default_handlers_keep_results)
    next
      assume "h = raises_finding ?a"
      then show ?thesis by (simp add: keeps_results_def raises_finding_def)
    qed
  qed
  have kr3: "(\<forall>h \<in> set (eventBus ?P INTENT_CLASSIFICATION). keeps_results h)
             \<and> (\<forall>h \<in> set (eventBus ?P CONFIDENCE_GATING). keeps_results h)
             \<and> (\<forall>h \<in> set (eventBus ?P ANTI_PATTERN_DETECTION). keeps_results h)"
    using kr [of INTENT_CLASSIFICATION] kr [of CONFIDENCE_GATING] kr [of ANTI_PATTERN_DETECTION]
    by simp
  from td(2) have flag: "antiPatternDetected (wctx (snd ?td)) \<noteq> None"
    by auto
  note t = process_stage_order [of ?P "''s''" None "''How does X work?''", unfolded Let_def]
  from t td(1) en flag
  have ret: "fst (process ''How does X work?'' ''s'' None ?P) = Inr (wctx (snd ?td))"
    by blast
  from t kh obtain c' new where hist:
    "history c' = history (session_context ?P ''s'' None) @ new"
    "\<forall>ctx. fst (process ''How does X work?'' ''s'' None ?P) = Inr ctx \<longrightarrow>
           ctx = c'
           \<and> map stage new
               = (if enableAntiPatternDetection (config ?P)
                     \<and> antiPatternDetected (wctx (snd ?td)) \<noteq> None
                  then [INTENT_CLASSIFICATION, CONFIDENCE_GATING, ANTI_PATTERN_DETECTION]
                  else stage_order (config ?P))"
    by blast
  from t kr3 td(1) en flag obtain ctx where keep:
    "fst (process ''How does X work?'' ''s'' None ?P) = Inr ctx"
    "selectedStrategy ctx = selectedStrategy (session_context ?P ''s'' None)"
    "executionResult ctx = executionResult (session_context ?P ''s'' None)"
    by blast
  from ret hist en flag have stages:
    "map stage (history (wctx (snd ?td)))
       = [INTENT_CLASSIFICATION, CONFIDENCE_GATING, ANTI_PATTERN_DETECTION]"
    by (simp add: c0 new_context_def)
  from ret keep have none:
    "selectedStrategy (wctx (snd ?td)) = None" "executionResult (wctx (snd ?td)) = None"
    by (simp_all add: c0 new_context_def)
  from ret stages none td(2) two quiet_detector show ?thesis
    by simp
qed

subsection \<open>C5: what \<open>updateFromFeedback\<close> writes\<close>

lemma feedbackToReward_range: "0 \<le> feedbackToReward fb \<and> feedbackToReward fb \<le> 1"
  by (simp add: feedbackToReward_def Let_def)

lemma update_keeps_other_entries:
  "filter (\<lambda>p. fst p \<noteq> k) (AList.update k v al) = filter (\<lambda>p. fst p \<noteq> k) al"
  by (induction al) auto

lemma update_state:
  "state (updateFromFeedback c strategy fb m) =
     (state m)
       \<lparr> rewardHistory := rewardHistory (state m)
            @ [\<lparr> entry_context = c, entry_strategy = strategy, reward = feedbackToReward fb \<rparr>],
         strategyWeights :=
           AList.update strategy
             (map (\<lambda>(i, w). nadd w
                     (nmul (nmul (Num ((1 / 10) / (1 + real (totalIterations (state m)) * (1 / 1000))))
                              (nsub (Num (feedbackToReward fb))
                                 (dotProduct
                                    (case map_of (strategyWeights (state m)) strategy of
                                       None \<Rightarrow> [] | Some ws \<Rightarrow> ws)
                                    (contextToVector c))))
                        (at_index (contextToVector c) i)))
                (enumerate 0 (case map_of (strategyWeights (state m)) strategy of
                                None \<Rightarrow> [] | Some ws \<Rightarrow> ws)))
             (strategyWeights (state m)) \<rparr>"
  by (simp add: updateFromFeedback_def Let_def)

lemma update_rest:
  "alpha (updateFromFeedback c strategy fb m) = alpha m"
  "featureDimension (updateFromFeedback c strategy fb m) = featureDimension m"
  by (simp_all add: updateFromFeedback_def Let_def)

text \<open>
  Claim C5. A call \<open>updateFromFeedback(features, strategy, feedback)\<close> appends one entry
  to the reward history, so its length grows by exactly 1; the entry holds the features,
  the strategy and the reward, and the reward lies in \<open>[0, 1]\<close>. In the weight map the
  entry of every other strategy is the one it was (looked up by key, and as the list of
  the entries of the other strategies, in order); the exploration rate, the iteration
  counter, \<open>alpha\<close> and the feature dimension are unchanged.
\<close>

theorem updateFromFeedback_effect:
  "length (rewardHistory (state (updateFromFeedback c strategy fb m)))
     = length (rewardHistory (state m)) + 1
   \<and> rewardHistory (state (updateFromFeedback c strategy fb m))
       = rewardHistory (state m)
          @ [\<lparr> entry_context = c, entry_strategy = strategy, reward = feedbackToReward fb \<rparr>]
   \<and> 0 \<le> feedbackToReward fb \<and> feedbackToReward fb \<le> 1
   \<and> (\<forall>s. s \<noteq> strategy \<longrightarrow>
          map_of (strategyWeights (state (updateFromFeedback c strategy fb m))) s
            = map_of (strategyWeights (state m)) s)
   \<and> filter (\<lambda>p. fst p \<noteq> strategy) (strategyWeights (state (updateFromFeedback c strategy fb m)))
       = filter (\<lambda>p. fst p \<noteq> strategy) (strategyWeights (state m))
   \<and> explorationRate (state (updateFromFeedback c strategy fb m)) = explorationRate (state m)
   \<and> totalIterations (state (updateFromFeedback c strategy fb m)) = totalIterations (state m)
   \<and> alpha (updateFromFeedback c strategy fb m) = alpha m
   \<and> featureDimension (updateFromFeedback c strategy fb m) = featureDimension m"
  by (simp add: update_state update_rest feedbackToReward_range update_keeps_other_entries
        update_conv')

text \<open>Witness for C5: the feedback of the test suite (rating 5, task completed in 30
  time units without edits) on a new model. The sum of the parts is 1.38 and the reward
  is 1; the weights of \<open>GUIDED\<close> are those of the constructor.\<close>

theorem updateFromFeedback_effect_witness:
  "map reward
     (rewardHistory (state (updateFromFeedback
        \<lparr> intentType = MOVE_MAKE, taskComplexity = 6 / 10, userExperience = 8 / 10,
          timeOfDay = 10, sessionLength = 15, previousSuccessRate = 85 / 100 \<rparr>
        AUTONOMOUS
        \<lparr> rating = Some 5, explicit = None,
          implicit = Some \<lparr> taskCompleted = True, timeToCompletion = 30, editsMade = 0 \<rparr> \<rparr>
        (new_PreferenceModel (1 / 2) fixed_draws)))) = [1]
   \<and> map_of (strategyWeights (state (updateFromFeedback
        \<lparr> intentType = MOVE_MAKE, taskComplexity = 6 / 10, userExperience = 8 / 10,
          timeOfDay = 10, sessionLength = 15, previousSuccessRate = 85 / 100 \<rparr>
        AUTONOMOUS
        \<lparr> rating = Some 5, explicit = None,
          implicit = Some \<lparr> taskCompleted = True, timeToCompletion = 30, editsMade = 0 \<rparr> \<rparr>
        (new_PreferenceModel (1 / 2) fixed_draws)))) GUIDED
       = Some (replicate 6 (Num (1 / 20)))"
proof -
  let ?c = "\<lparr> intentType = MOVE_MAKE, taskComplexity = 6 / 10, userExperience = 8 / 10,
          timeOfDay = 10, sessionLength = 15, previousSuccessRate = 85 / 100 \<rparr>"
  let ?fb = "\<lparr> rating = Some 5, explicit = None,
          implicit = Some \<lparr> taskCompleted = True, timeToCompletion = 30, editsMade = 0 \<rparr> \<rparr>"
  let ?m = "new_PreferenceModel (1 / 2) fixed_draws"
  have r: "feedbackToReward ?fb = 1"
    by (simp add: feedbackToReward_def Let_def)
  have h0: "rewardHistory (state ?m) = []"
    by (simp add: new_PreferenceModel_def)
  have w0: "map_of (strategyWeights (state ?m)) GUIDED = Some (replicate 6 (Num (1 / 20)))"
    by code_simp
  from updateFromFeedback_effect [of ?c AUTONOMOUS ?fb ?m] r h0 w0
  show ?thesis
    by simp
qed

subsection \<open>C8: \<open>importModel\<close> is all or nothing\<close>

lemma get_prop_again:
  "get_prop d k = Inr v \<Longrightarrow> \<exists>v'. get_prop d k' = Inr v'"
  by (cases d) simp_all

lemma importModel_cases:
  "importModel serialized st =
     (case JSON_parse serialized of
        Inl e \<Rightarrow> (Some e, st)
      | Inr parsed \<Rightarrow>
          (case get_prop parsed ''weights'' of
             Inl e \<Rightarrow> (Some e, st)
           | Inr w \<Rightarrow>
               (case new_Map w of
                  Inl e \<Rightarrow> (Some e, st)
                | Inr entries \<Rightarrow>
                    (None,
                     \<lparr> rt_strategyWeights = entries,
                       rt_explorationRate = projr (get_prop parsed ''explorationRate''),
                       rt_totalIterations = projr (get_prop parsed ''totalIterations''),
                       rt_rewardHistory = projr (get_prop parsed ''rewardHistory'') \<rparr>))))"
proof (cases "JSON_parse serialized")
  case (Inl e)
  then show ?thesis by (simp add: importModel_def)
next
  case (Inr parsed)
  show ?thesis
  proof (cases "get_prop parsed ''weights''")
    case (Inl e)
    with Inr show ?thesis by (simp add: importModel_def)
  next
    case w: (Inr w)
    from get_prop_again [OF w] obtain x n h where
      "get_prop parsed ''explorationRate'' = Inr x"
      "get_prop parsed ''totalIterations'' = Inr n"
      "get_prop parsed ''rewardHistory'' = Inr h"
      by metis
    with Inr w show ?thesis
      by (cases st) (simp add: importModel_def Let_def split: sum.splits)
  qed
qed

text \<open>
  What the code does: every statement of \<open>importModel\<close> that can throw comes before
  its first assignment. So either an error is reported and the state is exactly what it
  was, or none is reported and all four fields are assigned from the parsed value, a
  property that the value does not have as \<open>undefined\<close>. An error is reported exactly
  when \<open>JSON.parse\<close> throws, the parsed value is \<open>null\<close>, or the \<open>Map\<close>
  constructor rejects \<open>data.weights\<close>.
\<close>

lemma importModel_all_or_nothing:
  "((\<exists>e. importModel serialized st = (Some e, st))
    \<or> (\<exists>parsed w entries x n h.
          JSON_parse serialized = Inr parsed
          \<and> get_prop parsed ''weights'' = Inr w \<and> new_Map w = Inr entries
          \<and> get_prop parsed ''explorationRate'' = Inr x
          \<and> get_prop parsed ''totalIterations'' = Inr n
          \<and> get_prop parsed ''rewardHistory'' = Inr h
          \<and> importModel serialized st =
               (None, \<lparr> rt_strategyWeights = entries, rt_explorationRate = x,
                        rt_totalIterations = n, rt_rewardHistory = h \<rparr>)))
   \<and> (fst (importModel serialized st) = None
        \<longleftrightarrow> (\<exists>parsed w entries. JSON_parse serialized = Inr parsed
               \<and> get_prop parsed ''weights'' = Inr w \<and> new_Map w = Inr entries))"
proof (cases "JSON_parse serialized")
  case (Inl e)
  then show ?thesis by (simp add: importModel_cases)
next
  case (Inr parsed)
  show ?thesis
  proof (cases "get_prop parsed ''weights''")
    case (Inl e)
    with Inr show ?thesis by (simp add: importModel_cases)
  next
    case w: (Inr w)
    from get_prop_again [OF w] obtain x n h where p:
      "get_prop parsed ''explorationRate'' = Inr x"
      "get_prop parsed ''totalIterations'' = Inr n"
      "get_prop parsed ''rewardHistory'' = Inr h"
      by metis
    show ?thesis
    proof (cases "new_Map w")
      case (Inl e)
      with Inr w show ?thesis by (simp add: importModel_cases)
    next
      case (Inr entries)
      with \<open>JSON_parse serialized = Inr parsed\<close> w p show ?thesis
        by (simp add: importModel_cases)
    qed
  qed
qed

text \<open>
  Claim C8 says that on malformed input \<open>importModel\<close> reports an error and leaves the
  whole state as it was. The code does so only when a statement throws. A text that is
  JSON and is not a persisted model is installed without an error: on a new model, whose
  map holds the five weight vectors and whose reward history is the empty array, the
  texts \<open>{}\<close>, \<open>5\<close> and \<open>"abc"\<close> leave an empty map and three \<open>undefined\<close> fields,
  and a payload that has \<open>weights\<close> and no other property leaves its one entry in the
  map and three \<open>undefined\<close> fields. No field is validated before the first
  assignment, against the rule that an import parses in full before it commits.
\<close>

theorem importModel_installs_malformed_models:
  "length (rt_strategyWeights (runtime_state (state (new_PreferenceModel (1 / 2) fixed_draws)))) = 5
   \<and> rt_rewardHistory (runtime_state (state (new_PreferenceModel (1 / 2) fixed_draws))) = Array []
   \<and> importModel (Inr (Object []))
         (runtime_state (state (new_PreferenceModel (1 / 2) fixed_draws)))
       = (None, \<lparr> rt_strategyWeights = [], rt_explorationRate = Undefined,
                  rt_totalIterations = Undefined, rt_rewardHistory = Undefined \<rparr>)
   \<and> importModel (Inr (Number (Num 5)))
         (runtime_state (state (new_PreferenceModel (1 / 2) fixed_draws)))
       = (None, \<lparr> rt_strategyWeights = [], rt_explorationRate = Undefined,
                  rt_totalIterations = Undefined, rt_rewardHistory = Undefined \<rparr>)
   \<and> importModel (Inr (String ''abc''))
         (runtime_state (state (new_PreferenceModel (1 / 2) fixed_draws)))
       = (None, \<lparr> rt_strategyWeights = [], rt_explorationRate = Undefined,
                  rt_totalIterations = Undefined, rt_rewardHistory = Undefined \<rparr>)
   \<and> importModel
         (Inr (Object [(''weights'',
                          Array [Array [String ''autonomous'', Array [Number (Num 1)]]])]))
         (runtime_state (state (new_PreferenceModel (1 / 2) fixed_draws)))
       = (None, \<lparr> rt_strategyWeights = [(String ''autonomous'', Array [Number (Num 1)])],
                  rt_explorationRate = Undefined,
                  rt_totalIterations = Undefined, rt_rewardHistory = Undefined \<rparr>)"
  by (simp add: importModel_def JSON_parse_def Let_def map_set_def runtime_state_def
        new_PreferenceModel_def all_strategies_def enumerate_eq_zip)

subsection \<open>C7: export followed by import\<close>

lemma add_entries_objects:
  "\<forall>x \<in> set items. is_object x \<Longrightarrow> \<exists>es. add_entries items acc = Inr es"
  by (induction items arbitrary: acc) simp_all

lemma exported_weights_map:
  "\<exists>es. new_Map (Array (map json_image
                     (map (\<lambda>(s, ws). Array [String (StrategyType_str s), weights_value ws]) al)))
          = Inr es"
  by (simp add: add_entries_objects split_beta)

lemma json_image_payload:
  "json_image (export_payload m) =
     Object [(''weights'',
                Array (map json_image
                         (map (\<lambda>(s, ws). Array [String (StrategyType_str s), weights_value ws])
                            (strategyWeights (state m))))),
             (''explorationRate'', Number (Num (explorationRate (state m)))),
             (''totalIterations'', Number (Num (real (totalIterations (state m))))),
             (''rewardHistory'',
                Array (map json_image
                         (map entry_value
                            (drop (length (rewardHistory (state m)) - 100)
                               (rewardHistory (state m))))))]"
  by (simp add: export_payload_def)

lemma import_of_export:
  "\<exists>es. importModel (exportModel m) st0 =
          (None,
           \<lparr> rt_strategyWeights = es,
             rt_explorationRate = Number (Num (explorationRate (state m))),
             rt_totalIterations = Number (Num (real (totalIterations (state m)))),
             rt_rewardHistory =
               Array (map json_image
                        (map entry_value
                           (drop (length (rewardHistory (state m)) - 100)
                              (rewardHistory (state m))))) \<rparr>)"
proof -
  from exported_weights_map [of "strategyWeights (state m)"] obtain es where
    "new_Map (Array (map json_image
                (map (\<lambda>(s, ws). Array [String (StrategyType_str s), weights_value ws])
                   (strategyWeights (state m))))) = Inr es"
    by blast
  then show ?thesis
    by (cases st0)
       (simp add: importModel_def exportModel_def JSON_stringify_def JSON_parse_def
          json_image_payload del: json_image.simps new_Map.simps)
qed

lemma import_of_export_lengths:
  "fst (importModel (exportModel m) st0) = None"
  "rt_totalIterations (snd (importModel (exportModel m) st0))
     = Number (Num (real (totalIterations (state m))))"
  "js_length (rt_rewardHistory (snd (importModel (exportModel m) st0)))
     = Some (min 100 (length (rewardHistory (state m))))"
  using import_of_export [of m st0] by auto

lemma updates_grow_history:
  "length (rewardHistory (state ((updateFromFeedback c s fb ^^ n) m)))
     = length (rewardHistory (state m)) + n"
  by (induction n) (simp_all add: updateFromFeedback_def Let_def)

text \<open>
  Claim C7 as stated fails: \<open>exportModel\<close> keeps the last 100 entries of the reward
  history. A new model updated 101 times has 101 entries; the model that imports its
  export has 100.
\<close>

theorem round_trip_truncates_counterexample:
  "length (rewardHistory (state
      ((updateFromFeedback
          \<lparr> intentType = MOVE_MAKE, taskComplexity = 6 / 10, userExperience = 8 / 10,
            timeOfDay = 10, sessionLength = 15, previousSuccessRate = 85 / 100 \<rparr>
          CONFIRMATION
          \<lparr> rating = Some 4, explicit = None, implicit = None \<rparr> ^^ 101)
         (new_PreferenceModel (1 / 2) fixed_draws)))) = 101
   \<and> fst (importModel
        (exportModel
           ((updateFromFeedback
               \<lparr> intentType = MOVE_MAKE, taskComplexity = 6 / 10, userExperience = 8 / 10,
                 timeOfDay = 10, sessionLength = 15, previousSuccessRate = 85 / 100 \<rparr>
               CONFIRMATION
               \<lparr> rating = Some 4, explicit = None, implicit = None \<rparr> ^^ 101)
              (new_PreferenceModel (1 / 2) fixed_draws)))
        (runtime_state (state (new_PreferenceModel (1 / 2) fixed_draws)))) = None
   \<and> js_length (rt_rewardHistory (snd (importModel
        (exportModel
           ((updateFromFeedback
               \<lparr> intentType = MOVE_MAKE, taskComplexity = 6 / 10, userExperience = 8 / 10,
                 timeOfDay = 10, sessionLength = 15, previousSuccessRate = 85 / 100 \<rparr>
               CONFIRMATION
               \<lparr> rating = Some 4, explicit = None, implicit = None \<rparr> ^^ 101)
              (new_PreferenceModel (1 / 2) fixed_draws)))
        (runtime_state (state (new_PreferenceModel (1 / 2) fixed_draws)))))) = Some 100"
  by (simp add: import_of_export_lengths updates_grow_history new_PreferenceModel_def)

text \<open>
  Claim C7, amended. For every state of the declared type and every state of the
  importing model, importing the export reports no error, the imported
  \<open>totalIterations\<close> is the original's, and the imported \<open>rewardHistory.length\<close> is the
  smaller of 100 and the original's; it is the original's whenever that is at most 100.
\<close>

theorem export_import_round_trip:
  "fst (importModel (exportModel m) st0) = None
   \<and> rt_totalIterations (snd (importModel (exportModel m) st0))
       = rt_totalIterations (runtime_state (state m))
   \<and> js_length (rt_rewardHistory (snd (importModel (exportModel m) st0)))
       = Some (min 100 (length (rewardHistory (state m))))
   \<and> (length (rewardHistory (state m)) \<le> 100 \<longrightarrow>
        js_length (rt_rewardHistory (snd (importModel (exportModel m) st0)))
          = js_length (rt_rewardHistory (runtime_state (state m))))"
  by (simp add: import_of_export_lengths runtime_state_def)

lemma pm_selectStrategy_state:
  "state (snd (pm_selectStrategy c m)) =
     (state m)\<lparr> explorationRate := max (1 / 10) (explorationRate (state m) * (999 / 1000)),
                totalIterations := totalIterations (state m) + 1 \<rparr>"
  by (simp add: pm_selectStrategy_def Let_def split_beta)

text \<open>Witness for C7: the export-and-import test of the suite with a selection before
  it: one update and one selection on a new model, and an import into another new
  model. The imported counter is 1 and the imported history has one entry.\<close>

theorem export_import_round_trip_witness:
  "length (rewardHistory (state
      (snd (pm_selectStrategy
         \<lparr> intentType = MOVE_MAKE, taskComplexity = 6 / 10, userExperience = 8 / 10,
           timeOfDay = 10, sessionLength = 15, previousSuccessRate = 85 / 100 \<rparr>
         (updateFromFeedback
            \<lparr> intentType = MOVE_MAKE, taskComplexity = 6 / 10, userExperience = 8 / 10,
              timeOfDay = 10, sessionLength = 15, previousSuccessRate = 85 / 100 \<rparr>
            CONFIRMATION
            \<lparr> rating = Some 4, explicit = None,
              implicit = Some \<lparr> taskCompleted = True, timeToCompletion = 60, editsMade = 2 \<rparr> \<rparr>
            (new_PreferenceModel (1 / 2) fixed_draws)))))) \<le> 100
   \<and> js_length (rt_rewardHistory (snd (importModel
        (exportModel
           (snd (pm_selectStrategy
              \<lparr> intentType = MOVE_MAKE, taskComplexity = 6 / 10, userExperience = 8 / 10,
                timeOfDay = 10, sessionLength = 15, previousSuccessRate = 85 / 100 \<rparr>
              (updateFromFeedback
                 \<lparr> intentType = MOVE_MAKE, taskComplexity = 6 / 10, userExperience = 8 / 10,
                   timeOfDay = 10, sessionLength = 15, previousSuccessRate = 85 / 100 \<rparr>
                 CONFIRMATION
                 \<lparr> rating = Some 4, explicit = None,
                   implicit = Some \<lparr> taskCompleted = True, timeToCompletion = 60,
                                      editsMade = 2 \<rparr> \<rparr>
                 (new_PreferenceModel (1 / 2) fixed_draws)))))
        (runtime_state (state (new_PreferenceModel (1 / 2) fixed_draws)))))) = Some 1
   \<and> rt_totalIterations (snd (importModel
        (exportModel
           (snd (pm_selectStrategy
              \<lparr> intentType = MOVE_MAKE, taskComplexity = 6 / 10, userExperience = 8 / 10,
                timeOfDay = 10, sessionLength = 15, previousSuccessRate = 85 / 100 \<rparr>
              (updateFromFeedback
                 \<lparr> intentType = MOVE_MAKE, taskComplexity = 6 / 10, userExperience = 8 / 10,
                   timeOfDay = 10, sessionLength = 15, previousSuccessRate = 85 / 100 \<rparr>
                 CONFIRMATION
                 \<lparr> rating = Some 4, explicit = None,
                   implicit = Some \<lparr> taskCompleted = True, timeToCompletion = 60,
                                      editsMade = 2 \<rparr> \<rparr>
                 (new_PreferenceModel (1 / 2) fixed_draws)))))
        (runtime_state (state (new_PreferenceModel (1 / 2) fixed_draws))))) = Number (Num 1)"
proof -
  let ?c = "\<lparr> intentType = MOVE_MAKE, taskComplexity = 6 / 10, userExperience = 8 / 10,
              timeOfDay = 10, sessionLength = 15, previousSuccessRate = 85 / 100 \<rparr>"
  let ?m = "snd (pm_selectStrategy ?c
              (updateFromFeedback ?c CONFIRMATION
                 \<lparr> rating = Some 4, explicit = None,
                   implicit = Some \<lparr> taskCompleted = True, timeToCompletion = 60,
                                      editsMade = 2 \<rparr> \<rparr>
                 (new_PreferenceModel (1 / 2) fixed_draws)))"
  have h: "length (rewardHistory (state ?m)) = 1" "totalIterations (state ?m) = 1"
    by (simp_all add: pm_selectStrategy_state updateFromFeedback_def Let_def
          new_PreferenceModel_def)
  from export_import_round_trip
         [of ?m "runtime_state (state (new_PreferenceModel (1 / 2) fixed_draws))"] h
  show ?thesis
    by (simp add: runtime_state_def)
qed

end
